theory Spec2Isabelle
  imports Main "HOL-Library.Char_ord" "HOL-Library.List_Lexorder" "HOL-Library.Word"
begin

text \<open>
  A model of the consolidation pipeline of the repository and the properties it has:
  \<^item> \<open>parquet.py\<close>: the scan of the headers of the input files (pass 1), the load of every
    file onto the schema of its module and the writer of the single output per module
    (pass 2);
  \<^item> \<open>apply_enoe_labels.py\<close>: the merge of the dictionaries of all releases into one
    mapping per \<open>(base, variable)\<close> and the lookup of labels;
  \<^item> \<open>label_ent_mun.py\<close>: the check of the geographic catalog before any table is labelled.

  Exceptions are values: a function that can raise returns \<open>error + result\<close>. What the
  operating system and the libraries do is a parameter of the model.
\<close>

section \<open>Strings as the Python code uses them\<close>

text \<open>
  Python strings are modelled as \<^typ>\<open>string\<close>. The model covers ASCII text: the
  character classes below (\<open>str.strip\<close> whitespace, the regular expression classes
  \<open>\d\<close>, \<open>\w\<close> and \<open>[A-Z0-9]\<close>, \<open>str.upper\<close> and \<open>str.lower\<close>) are the ASCII
  parts of Python's classes; every other character is left alone by the case mappings
  and belongs to no class.
\<close>

definition is_space :: "char \<Rightarrow> bool" where
  "is_space c \<longleftrightarrow> c \<in> set [CHR 0x09, CHR 0x0A, CHR 0x0B, CHR 0x0C, CHR 0x0D,
                          CHR 0x1C, CHR 0x1D, CHR 0x1E, CHR 0x1F, CHR 0x20]"

definition strip :: "string \<Rightarrow> string" where
  "strip s = rev (dropWhile is_space (rev (dropWhile is_space s)))"

definition is_digit :: "char \<Rightarrow> bool" where
  "is_digit c \<longleftrightarrow> c \<in> set ''0123456789''"

definition is_upper_alnum :: "char \<Rightarrow> bool" where
  "is_upper_alnum c \<longleftrightarrow> c \<in> set ''ABCDEFGHIJKLMNOPQRSTUVWXYZ0123456789''"

definition is_word_char :: "char \<Rightarrow> bool" where
  "is_word_char c \<longleftrightarrow>
     c \<in> set ''abcdefghijklmnopqrstuvwxyzABCDEFGHIJKLMNOPQRSTUVWXYZ0123456789_''"

definition upper_char :: "char \<Rightarrow> char" where
  "upper_char c =
     (case map_of (zip ''abcdefghijklmnopqrstuvwxyz'' ''ABCDEFGHIJKLMNOPQRSTUVWXYZ'') c of
        Some u \<Rightarrow> u | None \<Rightarrow> c)"

definition lower_char :: "char \<Rightarrow> char" where
  "lower_char c =
     (case map_of (zip ''ABCDEFGHIJKLMNOPQRSTUVWXYZ'' ''abcdefghijklmnopqrstuvwxyz'') c of
        Some u \<Rightarrow> u | None \<Rightarrow> c)"

definition str_upper :: "string \<Rightarrow> string" where
  "str_upper s = map upper_char s"

definition str_lower :: "string \<Rightarrow> string" where
  "str_lower s = map lower_char s"

text \<open>\<open>re.fullmatch(r"-?\d+", s)\<close>: an optional minus sign and at least one digit.\<close>

definition is_int_literal :: "string \<Rightarrow> bool" where
  "is_int_literal s =
     (case s of
        [] \<Rightarrow> False
      | c # ds \<Rightarrow> if c = CHR ''-'' then ds \<noteq> [] \<and> list_all is_digit ds
                  else list_all is_digit (c # ds))"

definition digit_val :: "char \<Rightarrow> nat" where
  "digit_val c = of_char c - 48"

definition nat_of_digits :: "string \<Rightarrow> nat" where
  "nat_of_digits ds = foldl (\<lambda>a c. 10 * a + digit_val c) 0 ds"

text \<open>\<open>int(s)\<close> on a string that \<open>is_int_literal\<close> accepts.\<close>

definition py_int :: "string \<Rightarrow> int" where
  "py_int s =
     (case s of
        [] \<Rightarrow> 0
      | c # ds \<Rightarrow> if c = CHR ''-'' then - int (nat_of_digits ds)
                  else int (nat_of_digits (c # ds)))"

definition digit_char :: "nat \<Rightarrow> char" where
  "digit_char d = ''0123456789'' ! d"

fun str_of_nat :: "nat \<Rightarrow> string" where
  "str_of_nat n =
     (if n < 10 then [digit_char n] else str_of_nat (n div 10) @ [digit_char (n mod 10)])"

declare str_of_nat.simps [simp del]

text \<open>\<open>str(n)\<close> for a Python integer.\<close>

definition str_of_int :: "int \<Rightarrow> string" where
  "str_of_int n = (if n < 0 then CHR ''-'' # str_of_nat (nat (- n)) else str_of_nat (nat n))"

text \<open>\<open>f"{n:02d}"\<close>, used by the code only for \<open>0 <= n < 100\<close>.\<close>

definition fmt_02d :: "int \<Rightarrow> string" where
  "fmt_02d n = [digit_char (nat n div 10), digit_char (nat n mod 10)]"

section \<open>Dictionary consolidation and label lookup (\<open>apply_enoe_labels.py\<close>)\<close>

type_synonym mapping = "string \<rightharpoonup> string"

text \<open>
  One entry of a dictionary document: \<open>{tabla, variable, categorias: [{valor, categoria}]}\<close>.
  A category is the pair of its \<open>valor\<close> and its \<open>categoria\<close>.
\<close>

record dict_row =
  tabla :: string
  variable :: string
  categorias :: "(string \<times> string) list"

text \<open>
  \<open>TABLA_BASE_RE = ^([A-Z0-9]+?)(\d)(\d{2})$\<close>: the last three characters are digits and
  a non-empty prefix of upper-case letters and digits precedes them, so the groups are
  the prefix, the third character from the end and the last two characters.
\<close>

definition tabla_base_match :: "string \<Rightarrow> (string \<times> string \<times> string) option" where
  "tabla_base_match s =
     (let n = length s in
      if 4 \<le> n \<and> list_all is_upper_alnum s \<and> list_all is_digit (drop (n - 3) s)
      then Some (take (n - 3) s, [s ! (n - 3)], drop (n - 2) s)
      else None)"

definition canon_base :: "string \<Rightarrow> string" where
  "canon_base p =
     (if p \<in> {''COE1'', ''COE1T''} then ''COE1T''
      else if p \<in> {''COE2'', ''COE2T''} then ''COE2T''
      else if p \<in> {''SDEM'', ''SDEMT''} then ''SDEMT''
      else if p \<in> {''HOG'', ''HOGT''} then ''HOGT''
      else if p \<in> {''VIV'', ''VIVT''} then ''VIVT''
      else p)"

definition parse_tabla_base :: "string \<Rightarrow> string \<times> int \<times> int" where
  "parse_tabla_base tb =
     (let s = str_upper (strip tb) in
      case tabla_base_match s of
        Some (base_pref, tri, yy) \<Rightarrow> (canon_base base_pref, py_int tri, py_int yy)
      | None \<Rightarrow> (filter is_upper_alnum s, 0, 0))"

definition year_quarter_rank :: "int \<Rightarrow> int \<Rightarrow> int" where
  "year_quarter_rank tri yy = (2000 + yy) * 10 + tri"

text \<open>
  A Python \<open>set\<close> of strings is a HOL set. The order in which a set is iterated
  (\<open>list(keys)\<close>, \<open>sorted(a_set, ...)\<close>) is not fixed by the language, so it is a
  parameter \<open>it\<close> of every function that iterates one: \<open>it S\<close> lists the elements of
  \<open>S\<close>, each once, in the order of iteration.
\<close>

type_synonym set_order = "string set \<Rightarrow> string list"

definition set_iteration :: "set_order \<Rightarrow> bool" where
  "set_iteration it \<longleftrightarrow> (\<forall>S. finite S \<longrightarrow> set (it S) = S \<and> distinct (it S))"

definition normalize_code_keys :: "set_order \<Rightarrow> string \<Rightarrow> string list" where
  "normalize_code_keys it code =
     (let s = strip code in
      if s = [] then []
      else it ({s}
             \<union> (if \<not> is_int_literal s then {str_upper s} else {})
             \<union> (if is_int_literal s
                then (let n = py_int s in
                      {str_of_int n} \<union> (if 0 \<le> n \<and> n < 100 then {fmt_02d n} else {}))
                else {})))"

text \<open>The body of the loop over \<open>cats\<close>: one category updates \<open>local_map\<close>.\<close>

definition add_category ::
  "set_order \<Rightarrow> mapping \<Rightarrow> string \<times> string \<Rightarrow> mapping" where
  "add_category it local_map c =
     (let code = strip (fst c); label = strip (snd c) in
      if code = [] \<or> label = [] then local_map
      else foldl (\<lambda>m k. m(k \<mapsto> label)) local_map (normalize_code_keys it code))"

definition local_map_of ::
  "set_order \<Rightarrow> (string \<times> string) list \<Rightarrow> mapping" where
  "local_map_of it cats = foldl (add_category it) Map.empty cats"

text \<open>The group key \<open>(base, variable)\<close> of a row and the pair \<open>(rank, local_map)\<close> it appends.\<close>

definition row_key :: "dict_row \<Rightarrow> string \<times> string" where
  "row_key r =
     (case parse_tabla_base (if tabla r \<noteq> [] then tabla r else ''BASE'') of
        (base, tri, yy) \<Rightarrow> (base, variable r))"

definition row_rank :: "dict_row \<Rightarrow> int" where
  "row_rank r =
     (case parse_tabla_base (if tabla r \<noteq> [] then tabla r else ''BASE'') of
        (base, tri, yy) \<Rightarrow> year_quarter_rank tri yy)"

definition row_entry :: "set_order \<Rightarrow> dict_row \<Rightarrow> int \<times> mapping" where
  "row_entry it r = (row_rank r, local_map_of it (categorias r))"

text \<open>\<open>grouped[key].append(v)\<close> on an insertion-ordered \<open>defaultdict(list)\<close>.\<close>

fun group_append :: "'k \<Rightarrow> 'v \<Rightarrow> ('k \<times> 'v list) list \<Rightarrow> ('k \<times> 'v list) list" where
  "group_append k v [] = [(k, [v])]"
| "group_append k v ((k', vs) # g) =
     (if k = k' then (k', vs @ [v]) # g else (k', vs) # group_append k v g)"

definition grouped_of ::
  "set_order \<Rightarrow> dict_row list
     \<Rightarrow> ((string \<times> string) \<times> (int \<times> mapping) list) list" where
  "grouped_of it rows = foldl (\<lambda>g r. group_append (row_key r) (row_entry it r) g) [] rows"

text \<open>
  \<open>sorted(lst, key=lambda x: x[0])\<close> is a stable sort, as \<^const>\<open>sort_key\<close> is;
  \<open>merged.update(mp)\<close> is \<^const>\<open>map_add\<close>.
\<close>

definition merge_sorted :: "(int \<times> mapping) list \<Rightarrow> mapping" where
  "merge_sorted lst = foldl (\<lambda>merged e. merged ++ snd e) Map.empty (sort_key fst lst)"

text \<open>
  The result \<open>{base: {variable: merged}}\<close>, kept as the list of its
  \<open>((base, variable), merged)\<close> items in insertion order.
\<close>

definition build_base_var_mappings ::
  "set_order \<Rightarrow> dict_row list \<Rightarrow> ((string \<times> string) \<times> mapping) list" where
  "build_base_var_mappings it rows =
     map (\<lambda>(key, lst). (key, merge_sorted lst)) (grouped_of it rows)"

text \<open>\<open>base_maps.get(base, {})\<close>: the variables of one base with their mappings.\<close>

definition var_maps_of ::
  "((string \<times> string) \<times> mapping) list \<Rightarrow> string \<Rightarrow> (string \<times> mapping) list" where
  "var_maps_of base_maps base =
     map (\<lambda>(key, m). (snd key, m)) (filter (\<lambda>(key, m). fst key = base) base_maps)"

text \<open>Removal of duplicates that keeps the first occurrence, as the \<open>seen\<close> loop does.\<close>

fun dedup :: "'a set \<Rightarrow> 'a list \<Rightarrow> 'a list" where
  "dedup seen [] = []"
| "dedup seen (k # ks) = (if k \<in> seen then dedup seen ks else k # dedup (insert k seen) ks)"

definition norm_variants :: "string option \<Rightarrow> string list" where
  "norm_variants v =
     (case v of
        None \<Rightarrow> []
      | Some x \<Rightarrow>
          (let s = strip x;
               out = [s] @ (if \<not> is_int_literal s then [str_upper s]
                            else (let n = py_int s in
                                  [str_of_int n]
                                  @ (if 0 \<le> n \<and> n < 100 then [fmt_02d n] else [])))
           in dedup {} out))"

fun first_hit :: "mapping \<Rightarrow> string list \<Rightarrow> string option" where
  "first_hit m [] = None"
| "first_hit m (k # ks) = (if k \<in> dom m then m k else first_hit m ks)"

text \<open>The function \<open>fn\<close> that \<open>_make_lookup_udf(mapping)\<close> returns.\<close>

definition lookup_fn :: "mapping \<Rightarrow> string option \<Rightarrow> string option" where
  "lookup_fn m v = first_hit m (norm_variants v)"

text \<open>
  The label columns that \<open>apply_labels_to_parquet\<close> derives: for every variable of the
  base whose upper-cased name is that of a column and whose mapping is not empty, the
  column \<open><col>_label\<close> of the looked-up values. A table is given by its column names
  and the values of each column (\<open>None\<close> is a null).
\<close>

definition col_upper_to_orig :: "string list \<Rightarrow> string \<rightharpoonup> string" where
  "col_upper_to_orig orig_cols = foldl (\<lambda>d c. d(str_upper c \<mapsto> c)) Map.empty orig_cols"

definition label_columns ::
  "((string \<times> string) \<times> mapping) list \<Rightarrow> string \<Rightarrow> string list \<Rightarrow> (string \<Rightarrow> string option list)
     \<Rightarrow> (string \<times> string option list) list" where
  "label_columns base_maps base orig_cols values =
     concat (map (\<lambda>(var_json, mapping).
        (case col_upper_to_orig orig_cols (str_upper var_json) of
           Some parquet_col \<Rightarrow>
             if mapping \<noteq> Map.empty
             then [(parquet_col @ ''_label'', map (lookup_fn mapping) (values parquet_col))]
             else []
         | None \<Rightarrow> []))
       (var_maps_of base_maps base))"

section \<open>Tables, errors and the outside world (parquet.py)\<close>

text \<open>
  A cell of a data frame is a string, an integer (the \<open>Int64\<close> metadata columns) or a
  missing value. A frame has its column names and its rows, each row holding one cell
  per column.
\<close>

datatype cell = NA | StrV string | IntV int

record frame =
  columns :: "string list"
  rows :: "cell list list"

datatype error = UnicodeDecodeError | ValueError | RuntimeError | ParserError | OSError | SystemExit

type_synonym byte = "8 word"

text \<open>
  What the file system, \<open>bytes.decode\<close>, \<open>csv.Sniffer\<close> and \<open>pandas.read_csv\<close> do is
  not part of the repository: it is the parameter \<open>env\<close> of every function that calls
  them, each call returning its result or the exception it raises.
  \<^item> \<open>read_bytes path\<close>: \<open>open(path, "rb").read()\<close>;
  \<^item> \<open>decode enc data\<close>: \<open>data.decode(enc, errors="replace")\<close>;
  \<^item> \<open>csv_sniff text\<close>: \<open>csv.Sniffer().sniff(text, delimiters=[",",";","|","\t"]).delimiter\<close>;
  \<^item> \<open>header_of_text text sep\<close>: the columns of
    \<open>pd.read_csv(io.StringIO(text), sep=sep, nrows=0, dtype=str, engine="python")\<close>;
  \<^item> \<open>header_of_file path sep enc\<close>: the same on \<open>path\<close> with \<open>encoding=enc\<close>;
  \<^item> \<open>read_csv_c path sep enc\<close>: \<open>pd.read_csv(path, sep=sep, dtype=str, engine="c", encoding=enc, low_memory=False)\<close>;
  \<^item> \<open>read_csv_python path sep enc\<close>: the same with \<open>engine="python"\<close>;
  \<^item> \<open>read_csv_text text sep\<close>: \<open>pd.read_csv(io.StringIO(text), sep=sep, dtype=str, engine="python")\<close>;
  \<^item> \<open>path_exists path\<close>: \<open>os.path.exists(path)\<close>.
\<close>

record env =
  read_bytes :: "string \<Rightarrow> error + byte list"
  decode :: "string \<Rightarrow> byte list \<Rightarrow> error + string"
  csv_sniff :: "string \<Rightarrow> error + char"
  header_of_text :: "string \<Rightarrow> char \<Rightarrow> error + string list"
  header_of_file :: "string \<Rightarrow> char \<Rightarrow> string \<Rightarrow> error + string list"
  read_csv_c :: "string \<Rightarrow> char \<Rightarrow> string \<Rightarrow> error + frame"
  read_csv_python :: "string \<Rightarrow> char \<Rightarrow> string \<Rightarrow> error + frame"
  read_csv_text :: "string \<Rightarrow> char \<Rightarrow> error + frame"
  path_exists :: "string \<Rightarrow> bool"

definition MODULES :: "string list" where
  "MODULES = [''VIVT'', ''HOGT'', ''SDEMT'', ''COE1T'', ''COE2T'']"

definition META :: "string list" where
  "META = [''anio'', ''trimestre'', ''anio_trimestre'']"

subsection \<open>File names\<close>

text \<open>
  \<open>re_name = _(20\d{2})_trim(\d)\b\<close> with \<open>re.IGNORECASE\<close>. \<open>re_name_at s\<close> matches the
  pattern at the start of \<open>s\<close>: the word boundary after the quarter digit holds at the
  end of the string and before a character that is not a word character.
  \<open>re_name_search\<close> returns the two groups of the leftmost match.
\<close>

definition re_name_at :: "string \<Rightarrow> (string \<times> string) option" where
  "re_name_at s =
     (if 11 \<le> length s \<and> take 3 s = ''_20'' \<and> is_digit (s ! 3) \<and> is_digit (s ! 4)
         \<and> s ! 5 = CHR ''_'' \<and> str_lower (take 4 (drop 6 s)) = ''trim'' \<and> is_digit (s ! 10)
         \<and> (case drop 11 s of [] \<Rightarrow> True | c # cs \<Rightarrow> \<not> is_word_char c)
      then Some (take 4 (drop 1 s), [s ! 10])
      else None)"

fun re_name_search :: "string \<Rightarrow> (string \<times> string) option" where
  "re_name_search [] = None"
| "re_name_search (c # cs) =
     (case re_name_at (c # cs) of Some g \<Rightarrow> Some g | None \<Rightarrow> re_name_search cs)"

definition parse_year_trim_from_name :: "string \<Rightarrow> int option \<times> int option" where
  "parse_year_trim_from_name fname =
     (case re_name_search fname of
        Some (y, q) \<Rightarrow> (Some (py_int y), Some (py_int q))
      | None \<Rightarrow> (None, None))"

text \<open>\<open>sub in s\<close> on strings.\<close>

fun str_contains :: "string \<Rightarrow> string \<Rightarrow> bool" where
  "str_contains [] sub = (sub = [])"
| "str_contains (c # cs) sub = (take (length sub) (c # cs) = sub \<or> str_contains cs sub)"

definition detect_module_from_filename :: "string \<Rightarrow> string option" where
  "detect_module_from_filename fname =
     (let up = str_upper fname in
      case find (str_contains up) MODULES of
        Some tag \<Rightarrow> Some tag
      | None \<Rightarrow> if str_contains up ''COE1'' then Some ''COE1T''
                else if str_contains up ''COE2'' then Some ''COE2T''
                else None)"

text \<open>
  \<open>os.path.basename\<close>: the part after the last separator. The paths of the repository
  are Windows paths, where both \<open>\\\<close> and \<open>/\<close> separate.
\<close>

definition basename :: "string \<Rightarrow> string" where
  "basename path = rev (takeWhile (\<lambda>c. c \<noteq> CHR ''/'' \<and> c \<noteq> CHR 0x5C) (rev path))"

subsection \<open>Encoding and delimiter detection\<close>

definition starts_with :: "byte list \<Rightarrow> byte list \<Rightarrow> bool" where
  "starts_with xs p \<longleftrightarrow> take (length p) xs = p"

definition sniff_encoding_head :: "byte list \<Rightarrow> string option" where
  "sniff_encoding_head head =
     (if starts_with head [0xEF, 0xBB, 0xBF] then Some ''utf-8-sig''
      else if starts_with head [0xFF, 0xFE, 0x00, 0x00] then Some ''utf-32le''
      else if starts_with head [0x00, 0x00, 0xFE, 0xFF] then Some ''utf-32be''
      else if starts_with head [0xFF, 0xFE] then Some ''utf-16le''
      else if starts_with head [0xFE, 0xFF] then Some ''utf-16be''
      else if 50 < count_list (take 2000 head) 0x00 then Some ''utf-16''
      else None)"

definition sniff_encoding :: "env \<Rightarrow> string \<Rightarrow> error + string option" where
  "sniff_encoding env path =
     (case read_bytes env path of
        Inl e \<Rightarrow> Inl e
      | Inr data \<Rightarrow> Inr (sniff_encoding_head (take 4096 data)))"

definition delimiters :: "char list" where
  "delimiters = [CHR '','', CHR '';'', CHR ''|'', CHR 0x09]"

text \<open>
  The fallback of \<open>sniff_delimiter\<close>: the first line of the sample
  (\<open>splitlines()[0]\<close>) and the first of the candidates that occurs most often in it
  (\<open>max(counts, key=counts.get)\<close> keeps the first maximum).
\<close>

definition is_linebreak :: "char \<Rightarrow> bool" where
  "is_linebreak c \<longleftrightarrow> c \<in> set [CHR 0x0A, CHR 0x0D, CHR 0x0B, CHR 0x0C, CHR 0x1C, CHR 0x1D, CHR 0x1E]"

definition most_frequent :: "string \<Rightarrow> char" where
  "most_frequent first_line =
     foldl (\<lambda>best d. if count_list first_line best < count_list first_line d then d else best)
       (CHR '','') [CHR '';'', CHR ''|'', CHR 0x09]"

definition sniff_delimiter :: "env \<Rightarrow> string \<Rightarrow> char" where
  "sniff_delimiter env text_sample =
     (case csv_sniff env text_sample of
        Inr d \<Rightarrow> d
      | Inl e \<Rightarrow> most_frequent (takeWhile (\<lambda>c. \<not> is_linebreak c) text_sample))"

definition encodings_try :: "string option \<Rightarrow> string list" where
  "encodings_try enc0 =
     (case enc0 of Some e \<Rightarrow> if e = [] then [] else [e] | None \<Rightarrow> [])
     @ [''utf-8'', ''utf-8-sig'', ''cp1252'', ''latin-1'', ''utf-16'', ''utf-16le'', ''utf-16be'']"

text \<open>A header parse counts when it returns and has more than zero columns.\<close>

definition accepted :: "error + string list \<Rightarrow> string list option" where
  "accepted r = (case r of Inr cs \<Rightarrow> if 0 < length cs then Some cs else None | Inl e \<Rightarrow> None)"

text \<open>The first loop of \<open>headers_only\<close>, over the candidate encodings.\<close>

fun headers_first_loop ::
  "env \<Rightarrow> string \<Rightarrow> byte list \<Rightarrow> string list \<Rightarrow> (string list \<times> string \<times> char) option" where
  "headers_first_loop env path sample [] = None"
| "headers_first_loop env path sample (enc # encs) =
     (case decode env enc sample of
        Inl e \<Rightarrow> headers_first_loop env path sample encs
      | Inr text \<Rightarrow>
          (let delim = sniff_delimiter env text in
           case accepted (header_of_text env text delim) of
             Some cs \<Rightarrow> Some (cs, enc, delim)
           | None \<Rightarrow>
               (case accepted (header_of_file env path delim enc) of
                  Some cs \<Rightarrow> Some (cs, enc, delim)
                | None \<Rightarrow> headers_first_loop env path sample encs)))"

text \<open>The last attempt: every encoding with every delimiter, on the file itself.\<close>

fun headers_combos ::
  "env \<Rightarrow> string \<Rightarrow> (string \<times> char) list \<Rightarrow> (string list \<times> string \<times> char) option" where
  "headers_combos env path [] = None"
| "headers_combos env path ((enc, delim) # rest) =
     (case accepted (header_of_file env path delim enc) of
        Some cs \<Rightarrow> Some (cs, enc, delim)
      | None \<Rightarrow> headers_combos env path rest)"

definition headers_only :: "env \<Rightarrow> string \<Rightarrow> error + (string list \<times> string \<times> char)" where
  "headers_only env path =
     (case sniff_encoding env path of
        Inl e \<Rightarrow> Inl e
      | Inr enc0 \<Rightarrow>
          (case read_bytes env path of
             Inl e \<Rightarrow> Inl e
           | Inr data \<Rightarrow>
               (let encs = encodings_try enc0; sample = take (128 * 1024) data in
                case headers_first_loop env path sample encs of
                  Some r \<Rightarrow> Inr r
                | None \<Rightarrow>
                    (case headers_combos env path
                            (concat (map (\<lambda>enc. map (\<lambda>d. (enc, d)) delimiters) encs)) of
                       Some r \<Rightarrow> Inr r
                     | None \<Rightarrow> Inl UnicodeDecodeError))))"

subsection \<open>Pass 1: headers and metadata of every file\<close>

record file_info =
  fi_path :: string
  fi_mod :: string
  fi_anio :: "int option"
  fi_tri :: "int option"
  fi_encoding :: string
  fi_delimiter :: char
  fi_cols :: "string list"

datatype log_event = NoModule string | HeadersFailed string error | MissingParquet string

record scan =
  info :: "file_info list"
  module_to_union :: "string \<Rightarrow> string set"
  module_to_files :: "string \<Rightarrow> string list"
  logged :: "log_event list"

text \<open>The body of the loop of \<open>pass1\<close>; \<open>except Exception\<close> turns a failure into a log line.\<close>

definition pass1_step :: "env \<Rightarrow> scan \<Rightarrow> string \<Rightarrow> scan" where
  "pass1_step env st path =
     (let fname = basename path in
      case detect_module_from_filename fname of
        None \<Rightarrow> st\<lparr>logged := logged st @ [NoModule fname]\<rparr>
      | Some m \<Rightarrow>
          (case headers_only env path of
             Inl e \<Rightarrow> st\<lparr>logged := logged st @ [HeadersFailed fname e]\<rparr>
           | Inr (cs, enc, delim) \<Rightarrow>
               (case parse_year_trim_from_name fname of
                  (anio, tri) \<Rightarrow>
                    st\<lparr>info := info st @ [\<lparr>fi_path = path, fi_mod = m, fi_anio = anio,
                                             fi_tri = tri, fi_encoding = enc,
                                             fi_delimiter = delim, fi_cols = cs\<rparr>],
                       module_to_union := (module_to_union st)(m := module_to_union st m \<union> set cs),
                       module_to_files := (module_to_files st)(m := module_to_files st m @ [path])\<rparr>)))"

definition pass1 :: "env \<Rightarrow> string list \<Rightarrow> scan" where
  "pass1 env csv_paths =
     foldl (pass1_step env)
       \<lparr>info = [], module_to_union = (\<lambda>m. {}), module_to_files = (\<lambda>m. []), logged = []\<rparr>
       csv_paths"

subsection \<open>Data frame operations\<close>

definition find_col_ci :: "string list \<Rightarrow> string \<Rightarrow> string option" where
  "find_col_ci cols target = find (\<lambda>c. str_lower c = str_lower target) cols"

definition cell_of :: "string list \<Rightarrow> cell list \<Rightarrow> string \<Rightarrow> cell" where
  "cell_of cols r c = (case map_of (zip cols r) c of Some v \<Rightarrow> v | None \<Rightarrow> NA)"

text \<open>\<open>df[c]\<close>: the values of a column.\<close>

definition column_values :: "frame \<Rightarrow> string \<Rightarrow> cell list" where
  "column_values df c = map (\<lambda>r. cell_of (columns df) r c) (rows df)"

text \<open>
  \<open>df.insert(i, name, values)\<close> raises \<open>ValueError\<close> when the column exists or the
  number of values is not the number of rows.
\<close>

definition insert_col :: "frame \<Rightarrow> nat \<Rightarrow> string \<Rightarrow> cell list \<Rightarrow> error + frame" where
  "insert_col df i name vals =
     (if name \<in> set (columns df) \<or> length vals \<noteq> length (rows df) then Inl ValueError
      else Inr \<lparr>columns = take i (columns df) @ [name] @ drop i (columns df),
                rows = map (\<lambda>(r, v). take i r @ [v] @ drop i r) (zip (rows df) vals)\<rparr>)"

text \<open>\<open>df[c] = values\<close>: replaces the column when it exists and appends it otherwise.\<close>

definition set_col :: "frame \<Rightarrow> string \<Rightarrow> cell list \<Rightarrow> frame" where
  "set_col df c vals =
     (if c \<in> set (columns df)
      then df\<lparr>rows := map (\<lambda>(r, v). map (\<lambda>(n, x). if n = c then v else x) (zip (columns df) r))
                          (zip (rows df) vals)\<rparr>
      else \<lparr>columns = columns df @ [c], rows = map (\<lambda>(r, v). r @ [v]) (zip (rows df) vals)\<rparr>)"

text \<open>The loop \<open>for c in cols: if c not in df.columns: df[c] = pd.NA\<close>.\<close>

definition pad_missing :: "frame \<Rightarrow> string list \<Rightarrow> frame" where
  "pad_missing df cols =
     foldl (\<lambda>d c. if c \<in> set (columns d) then d
                   else set_col d c (map (\<lambda>r. NA) (rows d))) df cols"

text \<open>\<open>df.reindex(columns=cols)\<close>: the columns \<open>cols\<close> in this order, missing ones null.\<close>

definition reindex :: "frame \<Rightarrow> string list \<Rightarrow> frame" where
  "reindex df cols =
     \<lparr>columns = cols, rows = map (\<lambda>r. map (cell_of (columns df) r) cols) (rows df)\<rparr>"

text \<open>\<open>astype(str)\<close> writes a missing value as \<open>nan\<close>; \<open>astype("string")\<close> keeps it missing.\<close>

definition astype_str :: "cell \<Rightarrow> string" where
  "astype_str v = (case v of NA \<Rightarrow> ''nan'' | StrV s \<Rightarrow> s | IntV n \<Rightarrow> str_of_int n)"

definition astype_string :: "cell \<Rightarrow> cell" where
  "astype_string v = (case v of NA \<Rightarrow> NA | StrV s \<Rightarrow> StrV s | IntV n \<Rightarrow> StrV (str_of_int n))"

text \<open>
  \<open>pd.to_numeric(..., errors="coerce").astype("Int64")\<close> on the metadata columns, whose
  cells are integers, missing, or strings of digits.
\<close>

definition to_Int64 :: "cell \<Rightarrow> cell" where
  "to_Int64 v =
     (case v of NA \<Rightarrow> NA | IntV n \<Rightarrow> IntV n
      | StrV s \<Rightarrow> if is_int_literal s then IntV (py_int s) else NA)"

definition zfill :: "nat \<Rightarrow> string \<Rightarrow> string" where
  "zfill n s = replicate (n - length s) (CHR ''0'') @ s"

text \<open>\<open>anio.astype("string") + "T" + trimestre.astype("string")\<close>, null when either is.\<close>

definition year_quarter_label :: "cell \<Rightarrow> cell \<Rightarrow> cell" where
  "year_quarter_label a t =
     (case (astype_string a, astype_string t) of
        (StrV y, StrV q) \<Rightarrow> StrV (y @ ''T'' @ q)
      | _ \<Rightarrow> NA)"

subsection \<open>Metadata columns\<close>

definition per_digits :: "cell \<Rightarrow> string" where
  "per_digits v = zfill 3 (filter is_digit (astype_str v))"

definition derive_year_trim_from_per :: "frame \<Rightarrow> cell list \<times> cell list" where
  "derive_year_trim_from_per df =
     (case find_col_ci (columns df) ''per'' of
        None \<Rightarrow> (map (\<lambda>r. NA) (rows df), map (\<lambda>r. NA) (rows df))
      | Some per_col \<Rightarrow>
          (let per = map per_digits (column_values df per_col) in
           (map (\<lambda>p. IntV (2000 + int (nat_of_digits (take 2 (drop 1 p))))) per,
            map (\<lambda>p. IntV (int (nat_of_digits (take 1 p)))) per)))"

definition add_meta_cols :: "frame \<Rightarrow> int option \<Rightarrow> int option \<Rightarrow> error + frame" where
  "add_meta_cols df anio_from_name tri_from_name =
     (let (anio_ser, tri_ser) =
            (case (anio_from_name, tri_from_name) of
               (Some a, Some t) \<Rightarrow> (map (\<lambda>r. IntV a) (rows df), map (\<lambda>r. IntV t) (rows df))
             | _ \<Rightarrow> derive_year_trim_from_per df)
      in case insert_col df 0 ''anio'' (map to_Int64 anio_ser) of
           Inl e \<Rightarrow> Inl e
         | Inr df1 \<Rightarrow>
             (case insert_col df1 1 ''trimestre'' (map to_Int64 tri_ser) of
                Inl e \<Rightarrow> Inl e
              | Inr df2 \<Rightarrow>
                  insert_col df2 2 ''anio_trimestre''
                    (map (\<lambda>(a, t). year_quarter_label a t)
                       (zip (column_values df2 ''anio'') (column_values df2 ''trimestre'')))))"

subsection \<open>Loading one file\<close>

definition lossy_read :: "env \<Rightarrow> string \<Rightarrow> char \<Rightarrow> error + frame" where
  "lossy_read env path delim =
     (case read_bytes env path of
        Inl e \<Rightarrow> Inl e
      | Inr data \<Rightarrow>
          (case decode env ''latin-1'' data of
             Inl e \<Rightarrow> Inl e
           | Inr text \<Rightarrow> read_csv_text env text delim))"

definition alt_encodings :: "string list" where
  "alt_encodings = [''utf-8-sig'', ''utf-16'', ''utf-16le'', ''utf-16be'', ''cp1252'', ''latin-1'']"

fun read_alternates :: "env \<Rightarrow> string \<Rightarrow> char \<Rightarrow> string list \<Rightarrow> frame option" where
  "read_alternates env path delim [] = None"
| "read_alternates env path delim (enc2 # encs) =
     (case read_csv_python env path delim enc2 of
        Inr df \<Rightarrow> Some df
      | Inl e \<Rightarrow> read_alternates env path delim encs)"

definition read_full_csv_robust :: "env \<Rightarrow> string \<Rightarrow> string \<Rightarrow> char \<Rightarrow> error + frame" where
  "read_full_csv_robust env path enc delim =
     (case read_csv_c env path delim enc of
        Inr df \<Rightarrow> Inr df
      | Inl e1 \<Rightarrow>
          (case read_csv_python env path delim enc of
             Inr df \<Rightarrow> Inr df
           | Inl e2 \<Rightarrow>
               if e2 = UnicodeDecodeError
               then (case read_alternates env path delim alt_encodings of
                       Some df \<Rightarrow> Inr df
                     | None \<Rightarrow> lossy_read env path delim)
               else lossy_read env path delim))"

text \<open>The final casts of \<open>load_one\<close>, on a frame whose columns are \<open>final_cols\<close>.\<close>

definition final_casts :: "frame \<Rightarrow> frame" where
  "final_casts df =
     (let df1 = set_col df ''anio'' (map to_Int64 (column_values df ''anio''));
          df2 = set_col df1 ''trimestre'' (map to_Int64 (column_values df1 ''trimestre''));
          df3 = set_col df2 ''anio_trimestre''
                  (map (\<lambda>(a, t). year_quarter_label a t)
                     (zip (column_values df2 ''anio'') (column_values df2 ''trimestre'')));
          non_meta = filter (\<lambda>c. c \<notin> set META) (columns df3)
      in foldl (\<lambda>d c. set_col d c (map astype_string (column_values d c))) df3 non_meta)"

definition load_one :: "env \<Rightarrow> file_info \<Rightarrow> string list \<Rightarrow> error + frame" where
  "load_one env fi final_cols =
     (case read_full_csv_robust env (fi_path fi) (fi_encoding fi) (fi_delimiter fi) of
        Inl e \<Rightarrow> Inl e
      | Inr df \<Rightarrow>
          (case add_meta_cols df (fi_anio fi) (fi_tri fi) of
             Inl e \<Rightarrow> Inl e
           | Inr df1 \<Rightarrow> Inr (final_casts (reindex (pad_missing df1 final_cols) final_cols))))"

subsection \<open>The single-file writer\<close>

text \<open>
  The output file: the column names of the writer's schema, the rows appended so far and
  whether \<open>writer.close()\<close> was reached. The column types of a schema are fixed by the
  casts of \<open>load_one\<close>, so two schemas differ when their column names do. A partition is
  the result of computing one delayed frame: the frame or the exception.
\<close>

record parquet_file =
  pq_schema :: "string list"
  pq_rows :: "cell list list"
  pq_closed :: bool

fun write_rest :: "parquet_file \<Rightarrow> (error + frame) list \<Rightarrow> parquet_file \<times> error option" where
  "write_rest w [] = (w\<lparr>pq_closed := True\<rparr>, None)"
| "write_rest w (p # ps) =
     (case p of
        Inl e \<Rightarrow> (w, Some e)
      | Inr pdf \<Rightarrow>
          (let pdf' = (if columns pdf \<noteq> pq_schema w
                       then reindex (pad_missing pdf (pq_schema w)) (pq_schema w) else pdf)
           in write_rest (w\<lparr>pq_rows := pq_rows w @ rows pdf'\<rparr>) ps))"

definition write_single_parquet_from_ddf ::
  "(error + frame) list \<Rightarrow> parquet_file option \<times> error option" where
  "write_single_parquet_from_ddf parts =
     (case parts of
        [] \<Rightarrow> (None, Some RuntimeError)
      | p # ps \<Rightarrow>
          (case p of
             Inl e \<Rightarrow> (None, Some e)
           | Inr first_df \<Rightarrow>
               (case write_rest \<lparr>pq_schema = columns first_df, pq_rows = rows first_df,
                                 pq_closed = False\<rparr> ps of
                  (w, r) \<Rightarrow> (Some w, r))))"

subsection \<open>Pass 2: one output per module\<close>

definition final_cols_of :: "set_order \<Rightarrow> string set \<Rightarrow> string list" where
  "final_cols_of it union_mod =
     (let union_cols = sort_key str_lower (it union_mod)
      in META @ filter (\<lambda>c. c \<notin> set META) union_cols)"

definition files_of_module :: "file_info list \<Rightarrow> string \<Rightarrow> file_info list" where
  "files_of_module file_infos m = filter (\<lambda>fi. fi_mod fi = m) file_infos"

definition build_module ::
  "env \<Rightarrow> set_order \<Rightarrow> file_info list \<Rightarrow> (string \<Rightarrow> string set) \<Rightarrow> string
     \<Rightarrow> parquet_file option \<times> error option" where
  "build_module env it file_infos un m =
     write_single_parquet_from_ddf
       (map (\<lambda>fi. load_one env fi (final_cols_of it (un m))) (files_of_module file_infos m))"

text \<open>
  The loop over \<open>MODULES\<close>. The result lists the output files by module, in the order
  they were opened, and the exception that ended the run, if one did: nothing catches an
  exception of \<open>load_one\<close> or of the writer. The row count that is logged after an
  output is closed and the coverage report of the module are not part of the result.
\<close>

fun build_loop ::
  "env \<Rightarrow> set_order \<Rightarrow> file_info list \<Rightarrow> (string \<Rightarrow> string set) \<Rightarrow> string list
     \<Rightarrow> (string \<times> parquet_file) list \<times> error option" where
  "build_loop env it file_infos un [] = ([], None)"
| "build_loop env it file_infos un (m # ms) =
     (if files_of_module file_infos m = [] then build_loop env it file_infos un ms
      else (case build_module env it file_infos un m of
              (w, Some e) \<Rightarrow> (map (Pair m) (case w of None \<Rightarrow> [] | Some f \<Rightarrow> [f]), Some e)
            | (w, None) \<Rightarrow>
                (case build_loop env it file_infos un ms of
                   (outs, r) \<Rightarrow> (map (Pair m) (case w of None \<Rightarrow> [] | Some f \<Rightarrow> [f]) @ outs, r))))"

definition build_with_dask ::
  "env \<Rightarrow> set_order \<Rightarrow> file_info list \<Rightarrow> (string \<Rightarrow> string set)
     \<Rightarrow> (string \<times> parquet_file) list \<times> error option" where
  "build_with_dask env it file_infos un = build_loop env it file_infos un MODULES"

text \<open>
  The script: it exits when there is no input file, and otherwise runs \<open>pass1\<close>, then
  \<open>build_with_dask\<close> on what it found.
\<close>

definition run_pipeline ::
  "env \<Rightarrow> set_order \<Rightarrow> string list \<Rightarrow> (string \<times> parquet_file) list \<times> error option" where
  "run_pipeline env it csv_files =
     (if csv_files = [] then ([], Some SystemExit)
      else (let st = pass1 env csv_files
            in build_with_dask env it (info st) (module_to_union st)))"

section \<open>Geographic labels (\<open>label_ent_mun.py\<close>)\<close>

definition expected_cols :: "string list" where
  "expected_cols = [''CVE_ENT'', ''NOM_ENT'', ''CVE_MUN'', ''NOM_MUN'']"

text \<open>The loop of \<open>read_catalog\<close> over the encodings: it stops at the first that reads.\<close>

fun catalog_try :: "env \<Rightarrow> string \<Rightarrow> byte list \<Rightarrow> string list \<Rightarrow> frame option" where
  "catalog_try env path sample [] = None"
| "catalog_try env path sample (enc # encs) =
     (case decode env enc sample of
        Inl e \<Rightarrow> catalog_try env path sample encs
      | Inr text \<Rightarrow>
          (case read_csv_python env path (sniff_delimiter env text) enc of
             Inr df \<Rightarrow> Some df
           | Inl e \<Rightarrow> catalog_try env path sample encs))"

text \<open>\<open>drop_duplicates(subset=...)\<close> keeps the first row of every key.\<close>

fun drop_duplicates :: "('r \<Rightarrow> 'k) \<Rightarrow> 'k set \<Rightarrow> 'r list \<Rightarrow> 'r list" where
  "drop_duplicates key seen [] = []"
| "drop_duplicates key seen (r # rs) =
     (if key r \<in> seen then drop_duplicates key seen rs
      else r # drop_duplicates key (insert (key r) seen) rs)"

definition zfill_digits :: "nat \<Rightarrow> cell \<Rightarrow> cell" where
  "zfill_digits n v = StrV (zfill n (filter is_digit (astype_str v)))"

text \<open>The first part of \<open>read_catalog\<close>: the table as it was read.\<close>

definition read_catalog_frame :: "env \<Rightarrow> string \<Rightarrow> error + frame" where
  "read_catalog_frame env catalog_path =
     (case read_bytes env catalog_path of
        Inl e \<Rightarrow> Inl e
      | Inr data \<Rightarrow>
          (case catalog_try env catalog_path (take (256 * 1024) data)
                  [''utf-8'', ''utf-8-sig'', ''cp1252'', ''latin-1''] of
             Some df \<Rightarrow> Inr df
           | None \<Rightarrow> read_csv_python env catalog_path (CHR '','') ''latin-1''))"

definition read_catalog :: "env \<Rightarrow> string \<Rightarrow> error + (frame \<times> frame)" where
  "read_catalog env catalog_path =
     (case read_catalog_frame env catalog_path of
        Inl e \<Rightarrow> Inl e
      | Inr df \<Rightarrow>
          if filter (\<lambda>c. c \<notin> set (columns df)) expected_cols \<noteq> [] then Inl ValueError
          else
            (let df1 = set_col df ''CVE_ENT''
                         (map (zfill_digits 2) (column_values df ''CVE_ENT''));
                 df2 = set_col df1 ''CVE_MUN''
                         (map (zfill_digits 3) (column_values df1 ''CVE_MUN''));
                 ent = reindex df2 [''CVE_ENT'', ''NOM_ENT''];
                 muni = reindex df2 [''CVE_ENT'', ''CVE_MUN'', ''NOM_MUN'']
             in Inr (ent\<lparr>rows := drop_duplicates (\<lambda>r. take 1 r) {} (rows ent)\<rparr>,
                     muni\<lparr>rows := drop_duplicates (\<lambda>r. take 2 r) {} (rows muni)\<rparr>)))"

definition CATALOGO_PATH :: string where
  "CATALOGO_PATH = ''AGEEML_20251021625902_UTF.csv''"

definition PARQUETS_IN :: "string list" where
  "PARQUETS_IN = [''enoe_master_coe1t.parquet'', ''enoe_master_coe2t.parquet'',
                  ''enoe_master_hogt.parquet'', ''enoe_master_sdemt.parquet'',
                  ''enoe_master_vivt.parquet'']"

text \<open>
  The script of \<open>label_ent_mun.py\<close>: the catalog is read first, then every table that
  exists is labelled. What \<open>label_one_parquet\<close> writes for one table, or the exception
  it raises, is the parameter \<open>label_one\<close>. The result is the list of the tables that
  were labelled, with what was written for each, the log, and the exception that ended
  the script, if one did.
\<close>

fun label_loop ::
  "env \<Rightarrow> (string \<Rightarrow> frame \<Rightarrow> frame \<Rightarrow> error + 'out) \<Rightarrow> frame \<Rightarrow> frame \<Rightarrow> string list
     \<Rightarrow> (string \<times> 'out) list \<times> log_event list \<times> error option" where
  "label_loop env label_one ent_df muni_df [] = ([], [], None)"
| "label_loop env label_one ent_df muni_df (p # ps) =
     (if path_exists env p
      then (case label_one p ent_df muni_df of
              Inl e \<Rightarrow> ([], [], Some e)
            | Inr out \<Rightarrow>
                (case label_loop env label_one ent_df muni_df ps of
                   (outs, lg, r) \<Rightarrow> ((p, out) # outs, lg, r)))
      else (case label_loop env label_one ent_df muni_df ps of
              (outs, lg, r) \<Rightarrow> (outs, MissingParquet p # lg, r)))"

definition label_main ::
  "env \<Rightarrow> (string \<Rightarrow> frame \<Rightarrow> frame \<Rightarrow> error + 'out)
     \<Rightarrow> (string \<times> 'out) list \<times> log_event list \<times> error option" where
  "label_main env label_one =
     (case read_catalog env CATALOGO_PATH of
        Inl e \<Rightarrow> ([], [], Some e)
      | Inr (ent_df, muni_df) \<Rightarrow> label_loop env label_one ent_df muni_df PARQUETS_IN)"

section \<open>Definitions used in the statements and examples\<close>

text \<open>The key variants of a stripped code, as a set.\<close>

definition code_keys :: "string \<Rightarrow> string set" where
  "code_keys s =
     (if s = [] then {}
      else if is_int_literal s
           then {s, str_of_int (py_int s)} \<union> (if 0 \<le> py_int s \<and> py_int s < 100 then {fmt_02d (py_int s)} else {})
           else {s, str_upper s})"

definition ex_rows :: "dict_row list" where
  "ex_rows = [\<lparr>tabla = ''HOGT424'', variable = ''clase'', categorias = [(''01'', ''Informal'')]\<rparr>,
              \<lparr>tabla = ''hogt222'', variable = ''clase'', categorias = [(''01'', ''Formal'')]\<rparr>]"

definition ex_merged :: mapping where
  "ex_merged = merge_sorted (map (row_entry sorted_list_of_set) ex_rows)"

text \<open>
  What pass 1 keeps of one file: the entry it appends to \<open>info\<close>, or nothing when the
  name gives no module or \<open>headers_only\<close> raises.
\<close>

definition scanned :: "env \<Rightarrow> string \<Rightarrow> file_info option" where
  "scanned env path =
     (case detect_module_from_filename (basename path) of
        None \<Rightarrow> None
      | Some m \<Rightarrow>
          (case headers_only env path of
             Inl e \<Rightarrow> None
           | Inr (cs, enc, delim) \<Rightarrow>
               Some \<lparr>fi_path = path, fi_mod = m,
                     fi_anio = fst (parse_year_trim_from_name (basename path)),
                     fi_tri = snd (parse_year_trim_from_name (basename path)),
                     fi_encoding = enc, fi_delimiter = delim, fi_cols = cs\<rparr>))"

text \<open>
  The header \<open>cs\<close> is what pandas reads under \<open>(enc, d)\<close>: from the file itself, or
  from the decoded sample with the delimiter sniffed in it.
\<close>

definition header_parsed :: "env \<Rightarrow> string \<Rightarrow> string list \<Rightarrow> string \<Rightarrow> char \<Rightarrow> bool" where
  "header_parsed env path cs enc d \<longleftrightarrow>
     header_of_file env path d enc = Inr cs
     \<or> (case read_bytes env path of
           Inl e \<Rightarrow> False
         | Inr data \<Rightarrow>
             (case decode env enc (take (128 * 1024) data) of
                Inl e \<Rightarrow> False
              | Inr text \<Rightarrow> d = sniff_delimiter env text \<and> header_of_text env text d = Inr cs))"

text \<open>
  No candidate of \<open>headers_only\<close> gives more than zero columns: for every encoding it
  tries, neither the decoded sample nor the file under the sniffed delimiter does, and
  the file under each of the four delimiters does not either.
\<close>

definition no_candidate :: "env \<Rightarrow> string \<Rightarrow> byte list \<Rightarrow> bool" where
  "no_candidate env path data \<longleftrightarrow>
     list_all (\<lambda>enc.
        (case decode env enc (take (128 * 1024) data) of
           Inl e \<Rightarrow> True
         | Inr text \<Rightarrow>
             accepted (header_of_text env text (sniff_delimiter env text)) = None
             \<and> accepted (header_of_file env path (sniff_delimiter env text) enc) = None)
        \<and> list_all (\<lambda>d. accepted (header_of_file env path d enc) = None) delimiters)
       (encodings_try (sniff_encoding_head (take 4096 data)))"

text \<open>The number of rows \<open>read_full_csv_robust\<close> reads from a scanned file.\<close>

definition file_rows :: "env \<Rightarrow> file_info \<Rightarrow> nat" where
  "file_rows env fi =
     (case read_full_csv_robust env (fi_path fi) (fi_encoding fi) (fi_delimiter fi) of
        Inl e \<Rightarrow> 0
      | Inr df \<Rightarrow> length (rows df))"

text \<open>
  The load of a scanned file in pass 2, onto the columns of its module, returns a frame.
\<close>

definition loads :: "env \<Rightarrow> set_order \<Rightarrow> string list \<Rightarrow> file_info \<Rightarrow> bool" where
  "loads env it csv_files fi \<longleftrightarrow>
     \<not> isl (load_one env fi
              (final_cols_of it (module_to_union (pass1 env csv_files) (fi_mod fi))))"


text \<open>The first exception in a list of partitions.\<close>

fun first_error :: "(error + 'a) list \<Rightarrow> error option" where
  "first_error [] = None"
| "first_error (p # ps) = (case p of Inl e \<Rightarrow> Some e | Inr x \<Rightarrow> first_error ps)"





definition cast3 :: "cell list \<Rightarrow> cell list" where
  "cast3 xs = (case xs of [x, y, z] \<Rightarrow>
                 [to_Int64 x, to_Int64 y, year_quarter_label (to_Int64 x) (to_Int64 y)]
               | _ \<Rightarrow> xs)"

subsection \<open>An example world\<close>

text \<open>
  An example world: the files by name with their bytes, what the bytes decode to, and
  what pandas reads from a text with comma as separator (the header, and the whole
  table when every row has the fields of the header).
\<close>

definition ex_files :: "(string \<times> byte list) list" where
  "ex_files =
     [(''HOGT_2024_trim3.csv'',
       [0x65, 0x6E, 0x74, 0x2C, 0x70, 0x65, 0x72, 0x0A, 0x39, 0x2C, 0x31,
        0x32, 0x33, 0x0A]),
      (''hogt_2019.csv'',
       [0x45, 0x4E, 0x54, 0x2C, 0x70, 0x65, 0x72, 0x0A, 0x30, 0x31, 0x2C,
        0x34, 0x31, 0x39, 0x0A]),
      (''notes.csv'',
       [0x65, 0x6E, 0x74, 0x2C, 0x70, 0x65, 0x72, 0x0A, 0x39, 0x2C, 0x31,
        0x32, 0x33, 0x0A]),
      (''vivt_empty.csv'',
       []),
      (''coe1_2024.csv'',
       [0x65, 0x6E, 0x74, 0x2C, 0x70, 0x65, 0x72, 0x0A, 0x39, 0x2C, 0x31,
        0x32, 0x33, 0x0A]),
      (''sdemt_2019.csv'',
       [0x45, 0x4E, 0x54, 0x2C, 0x70, 0x65, 0x72, 0x0A, 0x30, 0x31, 0x2C,
        0x34, 0x31, 0x39, 0x0A]),
      (''sdemt_bad.csv'',
       [0x61, 0x2C, 0x62, 0x0A, 0x31, 0x2C, 0x32, 0x0A, 0x33, 0x2C, 0x34,
        0x2C, 0x35, 0x0A]),
      (''sdemt_new.csv'',
       [0x45, 0x4E, 0x54, 0x2C, 0x70, 0x65, 0x72, 0x0A, 0x30, 0x31, 0x2C,
        0x34, 0x31, 0x39, 0x0A]),
      (''ENOE_HOGT__enoe_2024_trim3_csv.csv'',
       [0x65, 0x6E, 0x74, 0x2C, 0x70, 0x65, 0x72, 0x0A, 0x39, 0x2C, 0x31,
        0x32, 0x33, 0x0A]),
      (''AGEEML_20251021625902_UTF.csv'',
       [0x43, 0x56, 0x45, 0x5F, 0x45, 0x4E, 0x54, 0x2C, 0x4E, 0x4F, 0x4D,
        0x5F, 0x45, 0x4E, 0x54, 0x2C, 0x43, 0x56, 0x45, 0x5F, 0x4D, 0x55,
        0x4E, 0x0A, 0x30, 0x31, 0x2C, 0x41, 0x67, 0x73, 0x2C, 0x30, 0x30,
        0x31, 0x0A])]"

definition ex_decoded :: "(byte list \<times> string) list" where
  "ex_decoded =
     [([0x65, 0x6E, 0x74, 0x2C, 0x70, 0x65, 0x72, 0x0A, 0x39, 0x2C, 0x31,
        0x32, 0x33, 0x0A],
       ''ent,per\<newline>9,123\<newline>''),
      ([0x45, 0x4E, 0x54, 0x2C, 0x70, 0x65, 0x72, 0x0A, 0x30, 0x31, 0x2C,
        0x34, 0x31, 0x39, 0x0A],
       ''ENT,per\<newline>01,419\<newline>''),
      ([],
       ''''),
      ([0x61, 0x2C, 0x62, 0x0A, 0x31, 0x2C, 0x32, 0x0A, 0x33, 0x2C, 0x34,
        0x2C, 0x35, 0x0A],
       ''a,b\<newline>1,2\<newline>3,4,5\<newline>''),
      ([0x43, 0x56, 0x45, 0x5F, 0x45, 0x4E, 0x54, 0x2C, 0x4E, 0x4F, 0x4D,
        0x5F, 0x45, 0x4E, 0x54, 0x2C, 0x43, 0x56, 0x45, 0x5F, 0x4D, 0x55,
        0x4E, 0x0A, 0x30, 0x31, 0x2C, 0x41, 0x67, 0x73, 0x2C, 0x30, 0x30,
        0x31, 0x0A],
       ''CVE_ENT,NOM_ENT,CVE_MUN\<newline>01,Ags,001\<newline>'')]"

definition ex_headers :: "(string \<times> string list) list" where
  "ex_headers =
     [(''ent,per\<newline>9,123\<newline>'', [''ent'', ''per'']),
      (''ENT,per\<newline>01,419\<newline>'', [''ENT'', ''per'']),
      (''a,b\<newline>1,2\<newline>3,4,5\<newline>'', [''a'', ''b'']),
      (''CVE_ENT,NOM_ENT,CVE_MUN\<newline>01,Ags,001\<newline>'', [''CVE_ENT'', ''NOM_ENT'', ''CVE_MUN''])]"

definition ex_tables :: "(string \<times> frame) list" where
  "ex_tables =
     [(''ent,per\<newline>9,123\<newline>'',
         \<lparr>columns = [''ent'', ''per''], rows = [[StrV ''9'', StrV ''123'']]\<rparr>),
      (''ENT,per\<newline>01,419\<newline>'',
         \<lparr>columns = [''ENT'', ''per''], rows = [[StrV ''01'', StrV ''419'']]\<rparr>),
      (''CVE_ENT,NOM_ENT,CVE_MUN\<newline>01,Ags,001\<newline>'',
         \<lparr>columns = [''CVE_ENT'', ''NOM_ENT'', ''CVE_MUN''],
           rows = [[StrV ''01'', StrV ''Ags'', StrV ''001'']]\<rparr>)]"

definition ex_parse_header :: "string \<Rightarrow> error + string list" where
  "ex_parse_header t = (case map_of ex_headers t of Some cs \<Rightarrow> Inr cs | None \<Rightarrow> Inl ParserError)"

definition ex_parse :: "string \<Rightarrow> error + frame" where
  "ex_parse t = (case map_of ex_tables t of Some df \<Rightarrow> Inr df | None \<Rightarrow> Inl ParserError)"

definition ex_text_of :: "string \<Rightarrow> error + string" where
  "ex_text_of p =
     (case map_of ex_files p of
        None \<Rightarrow> Inl OSError
      | Some data \<Rightarrow> (case map_of ex_decoded data of Some t \<Rightarrow> Inr t | None \<Rightarrow> Inl UnicodeDecodeError))"

definition ex_env :: env where
  "ex_env =
     \<lparr>read_bytes = (\<lambda>p. case map_of ex_files p of Some data \<Rightarrow> Inr data | None \<Rightarrow> Inl OSError),
      decode = (\<lambda>enc data. case map_of ex_decoded data of
                              Some t \<Rightarrow> Inr t | None \<Rightarrow> Inl UnicodeDecodeError),
      csv_sniff = (\<lambda>t. if t = [] then Inl ParserError else Inr (CHR '','')),
      header_of_text = (\<lambda>t d. ex_parse_header t),
      header_of_file = (\<lambda>p d enc. case ex_text_of p of Inl e \<Rightarrow> Inl e | Inr t \<Rightarrow> ex_parse_header t),
      read_csv_c = (\<lambda>p d enc. case ex_text_of p of Inl e \<Rightarrow> Inl e | Inr t \<Rightarrow> ex_parse t),
      read_csv_python = (\<lambda>p d enc. case ex_text_of p of Inl e \<Rightarrow> Inl e | Inr t \<Rightarrow> ex_parse t),
      read_csv_text = (\<lambda>t d. ex_parse t),
      path_exists = (\<lambda>p. p \<in> set (map fst ex_files))\<rparr>"

definition ex_paths :: "string list" where
  "ex_paths = [''HOGT_2024_trim3.csv'', ''hogt_2019.csv'', ''notes.csv'', ''vivt_empty.csv'']"


definition ex_mid_paths :: "string list" where
  "ex_mid_paths = [''sdemt_2019.csv'', ''sdemt_bad.csv'', ''sdemt_new.csv'']"

definition ex_fiA :: file_info where
  "ex_fiA = \<lparr>fi_path = ''HOGT_2024_trim3.csv'', fi_mod = ''HOGT'', fi_anio = Some 2024,
             fi_tri = Some 3, fi_encoding = ''utf-8'', fi_delimiter = CHR '','',
             fi_cols = [''ent'', ''per'']\<rparr>"

definition ex_fiB :: file_info where
  "ex_fiB = \<lparr>fi_path = ''hogt_2019.csv'', fi_mod = ''HOGT'', fi_anio = None,
             fi_tri = None, fi_encoding = ''utf-8'', fi_delimiter = CHR '','',
             fi_cols = [''ENT'', ''per'']\<rparr>"

definition ex_fi_csv :: file_info where
  "ex_fi_csv = \<lparr>fi_path = ''ENOE_HOGT__enoe_2024_trim3_csv.csv'', fi_mod = ''HOGT'',
                fi_anio = None, fi_tri = None, fi_encoding = ''utf-8'',
                fi_delimiter = CHR '','', fi_cols = [''ent'', ''per'']\<rparr>"

definition ex_fi_coe :: file_info where
  "ex_fi_coe = \<lparr>fi_path = ''coe1_2024.csv'', fi_mod = ''COE1T'', fi_anio = None,
                fi_tri = None, fi_encoding = ''utf-8'', fi_delimiter = CHR '','',
                fi_cols = [''ent'', ''per'']\<rparr>"

definition ex_fi_sd :: file_info where
  "ex_fi_sd = \<lparr>fi_path = ''sdemt_2019.csv'', fi_mod = ''SDEMT'', fi_anio = None,
               fi_tri = None, fi_encoding = ''utf-8'', fi_delimiter = CHR '','',
               fi_cols = [''ENT'', ''per'']\<rparr>"

definition ex_fi_bad :: file_info where
  "ex_fi_bad = \<lparr>fi_path = ''sdemt_bad.csv'', fi_mod = ''SDEMT'', fi_anio = None,
                fi_tri = None, fi_encoding = ''utf-8'', fi_delimiter = CHR '','',
                fi_cols = [''a'', ''b'']\<rparr>"

definition ex_fi_new :: file_info where
  "ex_fi_new = \<lparr>fi_path = ''sdemt_new.csv'', fi_mod = ''SDEMT'', fi_anio = None,
                fi_tri = None, fi_encoding = ''utf-8'', fi_delimiter = CHR '','',
                fi_cols = [''ENT'', ''per'']\<rparr>"

definition ex_out :: parquet_file where
  "ex_out =
     \<lparr>pq_schema = [''anio'', ''trimestre'', ''anio_trimestre'', ''ENT'', ''ent'', ''per''],
      pq_rows = [[IntV 2024, IntV 3, StrV ''2024T3'', NA, StrV ''9'', StrV ''123''],
                 [IntV 2019, IntV 4, StrV ''2019T4'', StrV ''01'', NA, StrV ''419'']],
      pq_closed = True\<rparr>"

definition ex_out_one :: parquet_file where
  "ex_out_one =
     \<lparr>pq_schema = [''anio'', ''trimestre'', ''anio_trimestre'', ''ent'', ''per''],
      pq_rows = [[IntV 2024, IntV 3, StrV ''2024T3'', StrV ''9'', StrV ''123'']],
      pq_closed = True\<rparr>"


definition ex_out_open :: parquet_file where
  "ex_out_open =
     \<lparr>pq_schema = [''anio'', ''trimestre'', ''anio_trimestre'', ''a'', ''b'', ''ENT'', ''per''],
      pq_rows = [[IntV 2019, IntV 4, StrV ''2019T4'', NA, NA, StrV ''01'', StrV ''419'']],
      pq_closed = False\<rparr>"

definition ex_catalog :: frame where
  "ex_catalog = \<lparr>columns = [''CVE_ENT'', ''NOM_ENT'', ''CVE_MUN''],
                  rows = [[StrV ''01'', StrV ''Ags'', StrV ''001'']]\<rparr>"

section \<open>Properties\<close>

subsection \<open>The consolidated mapping of a group\<close>

lemma foldl_upd_same:
  "foldl (\<lambda>m k. m(k \<mapsto> l)) m ks = (\<lambda>x. if x \<in> set ks then Some l else m x)"
  by (induction ks arbitrary: m) (auto simp: fun_eq_iff)

lemma set_normalize_code_keys:
  assumes "set_iteration it"
  shows "set (normalize_code_keys it code) = code_keys (strip code)"
proof -
  have *: "set (it S) = S" if "finite S" for S
    using assms that by (simp add: set_iteration_def)
  show ?thesis
    by (simp add: normalize_code_keys_def code_keys_def Let_def * insert_commute)
qed

lemma add_category_eq:
  assumes "set_iteration it"
  shows "add_category it lm (code, label) =
     (if strip code = [] \<or> strip label = [] then lm
      else (\<lambda>x. if x \<in> code_keys (strip (strip code)) then Some (strip label) else lm x))"
  by (simp add: add_category_def Let_def foldl_upd_same set_normalize_code_keys[OF assms])

lemma add_category_indep:
  "set_iteration it \<Longrightarrow> set_iteration it' \<Longrightarrow> add_category it lm c = add_category it' lm c"
  by (cases c) (simp add: add_category_eq)

lemma foldl_cong_fun: "(\<And>a x. f a x = g a x) \<Longrightarrow> foldl f a xs = foldl g a xs"
  by (induction xs arbitrary: a) auto

lemma local_map_of_indep:
  "set_iteration it \<Longrightarrow> set_iteration it' \<Longrightarrow> local_map_of it cats = local_map_of it' cats"
  unfolding local_map_of_def by (rule foldl_cong_fun) (rule add_category_indep)

lemma map_of_group_append:
  "map_of (group_append k v g) k' =
     (if k' = k then Some ((case map_of g k of None \<Rightarrow> [] | Some vs \<Rightarrow> vs) @ [v]) else map_of g k')"
  by (induction g) (auto)

lemma map_of_foldl_group_append:
  "map_of (foldl (\<lambda>g r. group_append (kf r) (ef r) g) g0 ds) key =
     (let es = map ef (filter (\<lambda>r. kf r = key) ds) in
      if es = [] then map_of g0 key
      else Some ((case map_of g0 key of None \<Rightarrow> [] | Some vs \<Rightarrow> vs) @ es))"
proof (induction ds arbitrary: g0)
  case Nil
  then show ?case by simp
next
  case (Cons r ds)
  show ?case
    by (simp add: Cons.IH map_of_group_append Let_def)
qed

lemma map_of_grouped_of:
  "map_of (grouped_of it ds) key =
     (let es = map (row_entry it) (filter (\<lambda>r. row_key r = key) ds) in
      if es = [] then None else Some es)"
  unfolding grouped_of_def by (simp add: map_of_foldl_group_append Let_def)

lemma map_of_build:
  "map_of (build_base_var_mappings it ds) key =
     (let es = map (row_entry it) (filter (\<lambda>r. row_key r = key) ds) in
      if es = [] then None else Some (merge_sorted es))"
  unfolding build_base_var_mappings_def
  by (simp add: map_of_map map_of_grouped_of Let_def)

lemma merge_last_wins:
  assumes "sorted (map fst es)" "(r, mp) \<in> set es" "mp k = Some l"
    and "\<forall>e \<in> set es. k \<in> dom (snd e) \<longrightarrow> fst e < r \<or> snd e k = Some l"
  shows "foldl (\<lambda>merged e. merged ++ snd e) m0 es k = Some l"
  using assms
proof (induction es rule: rev_induct)
  case Nil
  then show ?case by simp
next
  case (snoc e es)
  show ?case
  proof (cases "snd e k = Some l")
    case True
    then show ?thesis by (simp add: map_add_def)
  next
    case False
    have notin: "k \<notin> dom (snd e) \<or> fst e < r"
      using snoc.prems(4) False by auto
    have ne: "(r, mp) \<noteq> e" using False snoc.prems(3) by auto
    hence mem: "(r, mp) \<in> set es" using snoc.prems(2) by auto
    have srt: "sorted (map fst es)" and le: "\<forall>x \<in> set es. fst x \<le> fst e"
      using snoc.prems(1) by (auto simp: sorted_append)
    from le mem have "r \<le> fst e" by force
    with notin have nk: "k \<notin> dom (snd e)" by auto
    have "foldl (\<lambda>merged e. merged ++ snd e) m0 es k = Some l"
      using snoc.IH[OF srt mem snoc.prems(3)] snoc.prems(4) by auto
    with nk show ?thesis by (auto simp: map_add_def split: option.splits)
  qed
qed

lemma merge_sorted_wins:
  assumes "(r, mp) \<in> set lst" "mp k = Some l"
    and "\<forall>e \<in> set lst. k \<in> dom (snd e) \<longrightarrow> fst e < r \<or> snd e k = Some l"
  shows "merge_sorted lst k = Some l"
  unfolding merge_sorted_def
  by (rule merge_last_wins[where r = r and mp = mp]) (use assms in auto)

text \<open>
  Claim C3. The mapping of a group \<open>(base, variable)\<close> is the merge of the local maps
  of its rows in ascending order of release rank, later ones overwriting earlier ones.
  Hence, when a row of the group gives a key the label \<open>l\<close> and every other row of
  the group that has the key has a lower rank (or gives the same label), the
  consolidated mapping of the group gives the key the label \<open>l\<close>.
\<close>

theorem merge_higher_rank_wins:
  assumes "r \<in> set ds" "local_map_of it (categorias r) k = Some l"
    and "\<forall>r' \<in> set ds. row_key r' = row_key r \<longrightarrow> k \<in> dom (local_map_of it (categorias r')) \<longrightarrow>
            row_rank r' < row_rank r \<or> local_map_of it (categorias r') k = Some l"
  shows "\<exists>m. map_of (build_base_var_mappings it ds) (row_key r) = Some m \<and> m k = Some l"
proof -
  let ?es = "map (row_entry it) (filter (\<lambda>r'. row_key r' = row_key r) ds)"
  have mem: "(row_rank r, local_map_of it (categorias r)) \<in> set ?es"
    using assms(1) by (force simp: row_entry_def)
  hence ne: "?es \<noteq> []" by (metis empty_iff empty_set)
  have "merge_sorted ?es k = Some l"
    by (rule merge_sorted_wins[OF mem assms(2)]) (use assms(3) in \<open>auto simp: row_entry_def\<close>)
  with ne show ?thesis by (simp add: map_of_build Let_def)
qed

lemma ex_row_key_2024: "row_key \<lparr>tabla = ''HOGT424'', variable = ''clase'', categorias = [(''01'', ''Informal'')]\<rparr> = (''HOGT'', ''clase'')"
  by code_simp
lemma ex_row_key_2022: "row_key \<lparr>tabla = ''hogt222'', variable = ''clase'', categorias = [(''01'', ''Formal'')]\<rparr> = (''HOGT'', ''clase'')"
  by code_simp
lemma ex_row_rank_2024: "row_rank \<lparr>tabla = ''HOGT424'', variable = ''clase'', categorias = [(''01'', ''Informal'')]\<rparr> = 20244"
  by code_simp
lemma ex_row_rank_2022: "row_rank \<lparr>tabla = ''hogt222'', variable = ''clase'', categorias = [(''01'', ''Formal'')]\<rparr> = 20222"
  by code_simp
lemma set_iteration_sorted: "set_iteration sorted_list_of_set"
  by (simp add: set_iteration_def)
lemma ex_strip_lits: "strip ''Informal'' = ''Informal''" "strip ''Formal'' = ''Formal''" "strip ''01'' = ''01''"
  by code_simp+
lemma code_keys_01_lit: "code_keys ''01'' = {''01'', ''1''}"
  by (simp add: code_keys_def is_int_literal_def is_digit_def py_int_def nat_of_digits_def digit_val_def
      str_of_int_def str_of_nat.simps fmt_02d_def digit_char_def insert_commute)
lemma ex_local_map: "local_map_of sorted_list_of_set [(''01'', l)] = (if strip l = [] then Map.empty else (\<lambda>x. if x \<in> {''01'', ''1''} then Some (strip l) else None))"
  by (simp add: local_map_of_def add_category_eq[OF set_iteration_sorted] ex_strip_lits code_keys_01_lit)

text \<open>
  The example of the claim: \<open>01 = Formal\<close> at release 2022Q2 and \<open>01 = Informal\<close> at
  release 2024Q4 resolve to \<open>Informal\<close>, whatever the order of the documents.
\<close>

theorem merge_higher_rank_wins_witness:
  "\<exists>m. map_of (build_base_var_mappings sorted_list_of_set ex_rows) (''HOGT'', ''clase'') = Some m \<and> m ''01'' = Some ''Informal''"
  using merge_higher_rank_wins[of "\<lparr>tabla = ''HOGT424'', variable = ''clase'', categorias = [(''01'', ''Informal'')]\<rparr>" ex_rows sorted_list_of_set "''01''" "''Informal''"]
  by (simp add: ex_rows_def ex_row_key_2024 ex_row_key_2022 ex_row_rank_2024 ex_row_rank_2022 ex_local_map ex_strip_lits)


subsection \<open>Key variants of a code\<close>

lemma upper_char_digit: "upper_char c = CHR ''0'' \<longleftrightarrow> c = CHR ''0''" "upper_char c = CHR ''1'' \<longleftrightarrow> c = CHR ''1''"
  by (auto simp: upper_char_def split: if_splits)

lemma str_upper_1: "str_upper s = ''1'' \<longleftrightarrow> s = ''1''"
  by (cases s) (auto simp: str_upper_def upper_char_digit)

lemma str_upper_01: "str_upper s = ''01'' \<longleftrightarrow> s = ''01''"
  by (auto simp: str_upper_def upper_char_digit map_eq_Cons_conv Cons_eq_map_conv)

lemma str_of_nat_ne: "str_of_nat n \<noteq> []"
  by (subst str_of_nat.simps) simp

lemma digit_cases: "d < 10 \<Longrightarrow> d = 0 \<or> d = 1 \<or> d = 2 \<or> d = 3 \<or> d = 4 \<or> d = 5 \<or> d = 6 \<or> d = 7 \<or> d = 8 \<or> d = (9::nat)"
  by arith

lemma digit_char_0: "d < 10 \<Longrightarrow> digit_char d = CHR ''0'' \<longleftrightarrow> d = 0"
  using digit_cases[of d] by (auto simp: digit_char_def)

lemma digit_char_1: "d < 10 \<Longrightarrow> digit_char d = CHR ''1'' \<longleftrightarrow> d = 1"
  using digit_cases[of d] by (auto simp: digit_char_def)

lemma str_of_nat_1: "str_of_nat n = ''1'' \<longleftrightarrow> n = 1"
proof (cases "n < 10")
  case True
  then show ?thesis by (subst str_of_nat.simps) (simp add: digit_char_1)
next
  case False
  then show ?thesis by (subst str_of_nat.simps) (simp add: str_of_nat_ne)
qed

lemma str_of_nat_0: "str_of_nat n = ''0'' \<longleftrightarrow> n = 0"
proof (cases "n < 10")
  case True
  then show ?thesis by (subst str_of_nat.simps) (simp add: digit_char_0)
next
  case False
  then show ?thesis by (subst str_of_nat.simps) (simp add: str_of_nat_ne)
qed

lemma str_of_nat_not_01: "str_of_nat n \<noteq> ''01''"
proof (cases "n < 10")
  case True
  then show ?thesis by (subst str_of_nat.simps) simp
next
  case False
  have "str_of_nat (n div 10) @ [digit_char (n mod 10)] \<noteq> ''01''"
  proof
    assume "str_of_nat (n div 10) @ [digit_char (n mod 10)] = ''01''"
    hence "str_of_nat (n div 10) = ''0''" by (simp add: append_eq_Cons_conv str_of_nat_ne)
    hence "n div 10 = 0" by (simp add: str_of_nat_0)
    with False show False by simp
  qed
  with False show ?thesis by (subst str_of_nat.simps) simp
qed

lemma str_of_int_1: "str_of_int n = ''1'' \<longleftrightarrow> n = 1"
  by (auto simp: str_of_int_def str_of_nat_1)

lemma str_of_int_not_01: "str_of_int n \<noteq> ''01''"
  by (auto simp: str_of_int_def str_of_nat_not_01)

lemma fmt_02d_01: "0 \<le> n \<Longrightarrow> n < 100 \<Longrightarrow> fmt_02d n = ''01'' \<longleftrightarrow> n = 1"
proof -
  assume a: "0 \<le> n" "n < 100"
  have "nat n div 10 < 10" "nat n mod 10 < 10" using a by auto
  hence "fmt_02d n = ''01'' \<longleftrightarrow> nat n div 10 = 0 \<and> nat n mod 10 = 1"
    by (simp add: fmt_02d_def digit_char_0 digit_char_1)
  also have "\<dots> \<longleftrightarrow> n = 1" using a by auto
  finally show ?thesis .
qed

lemma py_int_lits: "py_int ''1'' = 1" "py_int ''01'' = 1" "is_int_literal ''1''" "is_int_literal ''01''"
  by (simp_all add: py_int_def nat_of_digits_def digit_val_def is_int_literal_def is_digit_def)

lemma code_keys_1: "''1'' \<in> code_keys s \<longleftrightarrow> is_int_literal s \<and> py_int s = 1"
proof (cases "is_int_literal s")
  case True
  hence ne: "s \<noteq> []" by (auto simp: is_int_literal_def)
  have a: "s = ''1'' \<Longrightarrow> py_int s = 1" by (simp add: py_int_lits)
  have b: "fmt_02d (py_int s) \<noteq> ''1''" by (simp add: fmt_02d_def)
  show ?thesis
    using True ne a b str_of_int_1[of "py_int s"] by (auto simp: code_keys_def)
next
  case False
  hence "s \<noteq> ''1''" using py_int_lits by auto
  with False show ?thesis
    using str_upper_1[of s] by (auto simp: code_keys_def)
qed

lemma code_keys_01: "''01'' \<in> code_keys s \<longleftrightarrow> is_int_literal s \<and> py_int s = 1"
proof (cases "is_int_literal s")
  case True
  hence ne: "s \<noteq> []" by (auto simp: is_int_literal_def)
  have a: "s = ''01'' \<Longrightarrow> py_int s = 1" by (simp add: py_int_lits)
  show ?thesis
    using True ne a str_of_int_not_01[of "py_int s"] fmt_02d_01[of "py_int s"]
    by (auto simp: code_keys_def)
next
  case False
  hence "s \<noteq> ''01''" using py_int_lits by auto
  with False show ?thesis
    using str_upper_01[of s] by (auto simp: code_keys_def)
qed

lemma code_keys_no_empty: "[] \<notin> code_keys s"
  using str_of_nat_ne[of "nat (py_int s)"] str_of_nat_ne[of "nat (- py_int s)"]
  by (auto simp: code_keys_def str_of_int_def fmt_02d_def str_upper_def)

subsection \<open>Invariants of every consolidated mapping\<close>

lemma foldl_invariant:
  "P a \<Longrightarrow> (\<And>a x. P a \<Longrightarrow> x \<in> set xs \<Longrightarrow> P (f a x)) \<Longrightarrow> P (foldl f a xs)"
  by (induction xs arbitrary: a) auto

lemma build_invariant:
  assumes e: "P Map.empty"
    and a: "\<And>lm c. P lm \<Longrightarrow> P (add_category it lm c)"
    and m: "\<And>m1 m2. P m1 \<Longrightarrow> P m2 \<Longrightarrow> P (m1 ++ m2)"
    and b: "map_of (build_base_var_mappings it ds) key = Some m"
  shows "P m"
proof -
  let ?es = "map (row_entry it) (filter (\<lambda>r. row_key r = key) ds)"
  have loc: "P (local_map_of it cats)" for cats
    unfolding local_map_of_def by (rule foldl_invariant[where P = P]) (auto intro: e a)
  have "P (merge_sorted ?es)"
    unfolding merge_sorted_def
    by (rule foldl_invariant[where P = P]) (auto intro!: e m loc simp: row_entry_def)
  moreover have "m = merge_sorted ?es"
    using b by (simp add: map_of_build Let_def split: if_splits)
  ultimately show ?thesis by simp
qed

lemma consolidated_1_eq_01:
  assumes "set_iteration it" "map_of (build_base_var_mappings it ds) key = Some m"
  shows "m ''1'' = m ''01''"
proof (rule build_invariant[where P = "\<lambda>m. m ''1'' = m ''01''", OF _ _ _ assms(2)])
  show "Map.empty ''1'' = Map.empty ''01''" by simp
next
  fix lm :: mapping and c
  assume "lm ''1'' = lm ''01''"
  then show "add_category it lm c ''1'' = add_category it lm c ''01''"
    by (cases c) (simp add: add_category_eq[OF assms(1)] code_keys_1 code_keys_01)
next
  fix m1 m2 :: mapping
  assume "m1 ''1'' = m1 ''01''" "m2 ''1'' = m2 ''01''"
  then show "(m1 ++ m2) ''1'' = (m1 ++ m2) ''01''" by (simp add: map_add_def split: option.splits)
qed

lemma consolidated_no_empty_key:
  assumes "set_iteration it" "map_of (build_base_var_mappings it ds) key = Some m"
  shows "m [] = None"
proof (rule build_invariant[where P = "\<lambda>m. m [] = None", OF _ _ _ assms(2)])
  show "Map.empty [] = None" by simp
next
  fix lm :: mapping and c
  assume "lm [] = None"
  then show "add_category it lm c [] = None"
    by (cases c) (simp add: add_category_eq[OF assms(1)] code_keys_no_empty)
next
  fix m1 m2 :: mapping
  assume "m1 [] = None" "m2 [] = None"
  then show "(m1 ++ m2) [] = None" by (simp add: map_add_def)
qed

lemma strip_lits: "strip ''1'' = ''1''" "strip ''01'' = ''01''" "strip '' 1 '' = ''1''"
  by (simp_all add: strip_def is_space_def)

lemma norm_variants_lits: "norm_variants (Some ''1'') = [''1'', ''01'']" "norm_variants (Some ''01'') = [''01'', ''1'']"
   "norm_variants (Some '' 1 '') = [''1'', ''01'']"
  by code_simp+

text \<open>
  Claim C4. In a consolidated mapping that stores a label under the key \<open>1\<close>, the lookup
  of each of the raw values \<open>1\<close>, \<open>01\<close> and \<open> 1 \<close> returns that label.
\<close>

theorem lookup_padding_variants:
  assumes "set_iteration it" "map_of (build_base_var_mappings it ds) key = Some m"
    and "m ''1'' = Some l"
  shows "lookup_fn m (Some ''1'') = Some l \<and> lookup_fn m (Some ''01'') = Some l
       \<and> lookup_fn m (Some '' 1 '') = Some l"
proof -
  have "m ''01'' = Some l"
    using consolidated_1_eq_01[OF assms(1,2)] assms(3) by simp
  with assms(3) show ?thesis
    by (simp add: lookup_fn_def norm_variants_lits domI)
qed

lemma strip_blank: "list_all is_space x \<Longrightarrow> strip x = []"
proof -
  assume "list_all is_space x"
  hence d: "dropWhile is_space x = []" by (simp add: list_all_iff)
  show ?thesis unfolding strip_def d by simp
qed

lemma norm_variants_blank: "list_all is_space x \<Longrightarrow> norm_variants (Some x) = [[]]"
  by (simp add: norm_variants_def strip_blank is_int_literal_def str_upper_def)

text \<open>
  Claim C10. A category whose code or label is empty or blank inserts nothing; no
  consolidated mapping has the empty string as a key; and the lookup of a null, empty
  or blank raw value returns null.
\<close>

theorem no_empty_key:
  assumes "set_iteration it"
  shows "(strip (fst c) = [] \<or> strip (snd c) = [] \<longrightarrow> add_category it lm c = lm)
       \<and> (map_of (build_base_var_mappings it ds) key = Some m \<longrightarrow>
             m [] = None \<and> lookup_fn m None = None
             \<and> (list_all is_space x \<longrightarrow> lookup_fn m (Some x) = None))"
proof (intro conjI impI)
  assume "strip (fst c) = [] \<or> strip (snd c) = []"
  then show "add_category it lm c = lm" by (auto simp: add_category_def Let_def)
next
  assume b: "map_of (build_base_var_mappings it ds) key = Some m"
  show e: "m [] = None" by (rule consolidated_no_empty_key[OF assms b])
  show "lookup_fn m None = None" by (simp add: lookup_fn_def norm_variants_def)
  assume "list_all is_space x"
  then show "lookup_fn m (Some x) = None"
    using e by (simp add: lookup_fn_def norm_variants_blank domIff)
qed

subsection \<open>Independence of the order of set iteration\<close>

lemma build_indep:
  assumes "set_iteration it" "set_iteration it'"
  shows "build_base_var_mappings it ds = build_base_var_mappings it' ds"
proof -
  have "row_entry it = row_entry it'"
    by (simp add: fun_eq_iff row_entry_def local_map_of_indep[OF assms])
  then show ?thesis by (simp add: build_base_var_mappings_def grouped_of_def)
qed

lemma ex_local_map_informal: "local_map_of sorted_list_of_set [(''01'', ''Informal'')] = (\<lambda>x. if x \<in> {''01'', ''1''} then Some ''Informal'' else None)"
  by (simp add: ex_local_map ex_strip_lits cong: if_cong)
lemma ex_local_map_formal: "local_map_of sorted_list_of_set [(''01'', ''Formal'')] = (\<lambda>x. if x \<in> {''01'', ''1''} then Some ''Formal'' else None)"
  by (simp add: ex_local_map ex_strip_lits cong: if_cong)

lemma ex_entries: "map (row_entry sorted_list_of_set) ex_rows =
   [(20244, \<lambda>x. if x \<in> {''01'', ''1''} then Some ''Informal'' else None),
    (20222, \<lambda>x. if x \<in> {''01'', ''1''} then Some ''Formal'' else None)]"
  by (simp add: ex_rows_def row_entry_def ex_row_rank_2024 ex_row_rank_2022 ex_local_map_informal ex_local_map_formal)

lemma ex_merged_eq: "ex_merged = (\<lambda>x. if x \<in> {''01'', ''1''} then Some ''Informal'' else None)"
  by (auto simp: ex_merged_def ex_entries merge_sorted_def fun_eq_iff map_add_def)

lemma ex_grouped: "grouped_of sorted_list_of_set ex_rows = [((''HOGT'', ''clase''), map (row_entry sorted_list_of_set) ex_rows)]"
  by (simp add: grouped_of_def ex_rows_def ex_row_key_2024 ex_row_key_2022)

lemma ex_build: "build_base_var_mappings sorted_list_of_set ex_rows = [((''HOGT'', ''clase''), ex_merged)]"
  by (simp add: build_base_var_mappings_def ex_grouped ex_merged_def)

text \<open>On the consolidated mapping of the example rows.\<close>

theorem lookup_padding_variants_witness:
  "lookup_fn ex_merged (Some ''1'') = Some ''Informal'' \<and> lookup_fn ex_merged (Some ''01'') = Some ''Informal''
       \<and> lookup_fn ex_merged (Some '' 1 '') = Some ''Informal''"
  using lookup_padding_variants[OF set_iteration_sorted, of ex_rows "(''HOGT'', ''clase'')" ex_merged "''Informal''"]
  by (simp add: ex_build ex_merged_eq)

lemma blank_lits: "strip ''  '' = []" "list_all is_space ''  ''"
  by (simp_all add: strip_def is_space_def)

text \<open>A blank code inserts nothing, and blank values find nothing in the example mapping.\<close>

theorem no_empty_key_witness:
  "add_category sorted_list_of_set Map.empty (''  '', ''Formal'') = Map.empty
   \<and> ex_merged [] = None \<and> lookup_fn ex_merged None = None \<and> lookup_fn ex_merged (Some ''  '') = None"
  using no_empty_key[OF set_iteration_sorted, of "(''  '', ''Formal'')" Map.empty ex_rows "(''HOGT'', ''clase'')" ex_merged "''  ''"]
  by (simp add: ex_build blank_lits is_space_def)

text \<open>
  Claim C9. The label columns are a function of the dictionary rows and the table alone:
  the one choice the code leaves to the run, the order in which the set of key variants
  is iterated, does not change them. Two runs on equal inputs give equal label columns.
\<close>

theorem labels_independent_of_set_order:
  assumes "set_iteration it" "set_iteration it'"
  shows "label_columns (build_base_var_mappings it ds) base orig_cols vals
       = label_columns (build_base_var_mappings it' ds) base orig_cols vals"
  by (simp add: build_indep[OF assms])

lemma set_iteration_rev: "set_iteration (\<lambda>S. rev (sorted_list_of_set S))"
  by (simp add: set_iteration_def)

lemma ex_merged_ne: "ex_merged \<noteq> Map.empty"
  by (simp add: ex_merged_eq fun_eq_iff exI[of _ "''1''"])

lemma norm_variants_7: "norm_variants (Some ''7'') = [''7'', ''07'']"
  by code_simp

lemma ex_lookups: "lookup_fn ex_merged (Some '' 1 '') = Some ''Informal''"
   "lookup_fn ex_merged (Some ''7'') = None"
  by (simp_all add: lookup_fn_def norm_variants_lits norm_variants_7 ex_merged_eq dom_def)

lemma lookup_fn_None: "lookup_fn m None = None"
  by (simp add: lookup_fn_def norm_variants_def)

lemma upper_lits: "str_upper ''clase'' = ''CLASE''" "str_upper ''Clase'' = ''CLASE''" "str_upper ''anio'' = ''ANIO''"
  by (simp_all add: str_upper_def upper_char_def)

lemma ex_labels: "label_columns (build_base_var_mappings sorted_list_of_set ex_rows) ''HOGT'' [''anio'', ''Clase'']
     (\<lambda>c. [Some '' 1 '', Some ''7'', None]) = [(''Clase_label'', [Some ''Informal'', None, None])]"
  by (simp add: label_columns_def ex_build var_maps_of_def col_upper_to_orig_def ex_merged_ne ex_lookups lookup_fn_None upper_lits)

text \<open>The label column of the example under another order of iteration.\<close>

theorem labels_independent_of_set_order_witness:
  "label_columns (build_base_var_mappings (\<lambda>S. rev (sorted_list_of_set S)) ex_rows) ''HOGT'' [''anio'', ''Clase'']
     (\<lambda>c. [Some '' 1 '', Some ''7'', None]) = [(''Clase_label'', [Some ''Informal'', None, None])]"
  using labels_independent_of_set_order[OF set_iteration_rev set_iteration_sorted, of ex_rows "''HOGT''" "[''anio'', ''Clase'']" "\<lambda>c. [Some '' 1 '', Some ''7'', None]"]
  by (simp add: ex_labels)

subsection \<open>Header detection and pass 1\<close>

lemma accepted_Some: "accepted r = Some cs \<longleftrightarrow> r = Inr cs \<and> cs \<noteq> []"
  by (auto simp: accepted_def split: sum.splits)

lemma first_loop_Some:
  "headers_first_loop env path sample encs = Some (cs, enc, d) \<Longrightarrow>
     cs \<noteq> [] \<and> enc \<in> set encs \<and>
     (\<exists>text. decode env enc sample = Inr text \<and> d = sniff_delimiter env text \<and>
        (header_of_text env text d = Inr cs \<or> header_of_file env path d enc = Inr cs))"
proof (induction encs)
  case Nil
  then show ?case by simp
next
  case (Cons e encs)
  then show ?case
    by (auto simp: Let_def accepted_Some split: sum.splits option.splits)
qed

lemma combos_Some:
  "headers_combos env path cmb = Some (cs, enc, d) \<Longrightarrow>
     cs \<noteq> [] \<and> (enc, d) \<in> set cmb \<and> header_of_file env path d enc = Inr cs"
proof (induction cmb)
  case Nil
  then show ?case by simp
next
  case (Cons a cmb)
  then show ?case
    by (cases a) (auto simp: accepted_Some split: option.splits)
qed

lemma headers_only_Inr:
  assumes "headers_only env path = Inr (cs, enc, d)"
  shows "cs \<noteq> [] \<and> header_parsed env path cs enc d"
proof -
  from assms obtain enc0 data where
    rb: "read_bytes env path = Inr data" and
    r: "headers_first_loop env path (take (128 * 1024) data) (encodings_try enc0) = Some (cs, enc, d)
        \<or> headers_combos env path (concat (map (\<lambda>enc. map (\<lambda>d. (enc, d)) delimiters) (encodings_try enc0))) = Some (cs, enc, d)"
    by (auto simp: headers_only_def Let_def split: sum.splits option.splits)
  from r show ?thesis
  proof
    assume "headers_first_loop env path (take (128 * 1024) data) (encodings_try enc0) = Some (cs, enc, d)"
    from first_loop_Some[OF this] show ?thesis
      by (auto simp: header_parsed_def rb)
  next
    assume "headers_combos env path (concat (map (\<lambda>enc. map (\<lambda>d. (enc, d)) delimiters) (encodings_try enc0))) = Some (cs, enc, d)"
    from combos_Some[OF this] show ?thesis
      by (auto simp: header_parsed_def)
  qed
qed

lemma first_loop_None:
  "headers_first_loop env path sample encs = None \<longleftrightarrow>
     list_all (\<lambda>enc. case decode env enc sample of
           Inl e \<Rightarrow> True
         | Inr text \<Rightarrow>
             accepted (header_of_text env text (sniff_delimiter env text)) = None
             \<and> accepted (header_of_file env path (sniff_delimiter env text) enc) = None) encs"
  by (induction encs) (auto simp: Let_def split: sum.splits option.splits)

lemma combos_None:
  "headers_combos env path cmb = None \<longleftrightarrow>
     list_all (\<lambda>(enc, d). accepted (header_of_file env path d enc) = None) cmb"
  by (induction cmb) (auto split: option.splits)

lemma headers_only_fails:
  assumes "read_bytes env path = Inr data"
  shows "headers_only env path = Inl UnicodeDecodeError \<longleftrightarrow> no_candidate env path data"
proof -
  let ?encs = "encodings_try (sniff_encoding_head (take 4096 data))"
  let ?sample = "take (128 * 1024) data"
  let ?cmb = "concat (map (\<lambda>enc. map (\<lambda>d. (enc, d)) delimiters) ?encs)"
  have "headers_only env path = Inl UnicodeDecodeError \<longleftrightarrow>
          headers_first_loop env path ?sample ?encs = None \<and> headers_combos env path ?cmb = None"
    by (simp add: headers_only_def sniff_encoding_def assms Let_def split: option.splits)
  also have "\<dots> \<longleftrightarrow> no_candidate env path data"
    unfolding first_loop_None combos_None no_candidate_def list_all_iff by auto
  finally show ?thesis .
qed

lemma pass1_snoc: "pass1 env (ps @ [p]) = pass1_step env (pass1 env ps) p"
  by (simp add: pass1_def)

lemma info_pass1_step:
  "info (pass1_step env st p) = info st @ (case scanned env p of None \<Rightarrow> [] | Some fi \<Rightarrow> [fi])"
  by (simp add: pass1_step_def scanned_def Let_def split: option.splits sum.splits prod.splits)

lemma info_pass1:
  "info (pass1 env paths) = concat (map (\<lambda>p. case scanned env p of None \<Rightarrow> [] | Some fi \<Rightarrow> [fi]) paths)"
proof (induction paths rule: rev_induct)
  case Nil
  then show ?case by (simp add: pass1_def)
next
  case (snoc p ps)
  then show ?case by (simp add: pass1_snoc info_pass1_step)
qed

lemma union_pass1_step:
  "module_to_union (pass1_step env st p) m =
     module_to_union st m \<union> (case scanned env p of None \<Rightarrow> {}
        | Some fi \<Rightarrow> if fi_mod fi = m then set (fi_cols fi) else {})"
proof (cases "detect_module_from_filename (basename p)")
  case None
  then show ?thesis by (simp add: pass1_step_def scanned_def)
next
  case (Some m')
  show ?thesis
  proof (cases "headers_only env p")
    case (Inl e)
    with Some show ?thesis by (simp add: pass1_step_def scanned_def)
  next
    case (Inr r)
    obtain cs enc d where "r = (cs, enc, d)" by (cases r) auto
    with Some Inr show ?thesis
      by (simp add: pass1_step_def scanned_def split: prod.splits)
  qed
qed

lemma union_pass1:
  "module_to_union (pass1 env paths) m =
     (\<Union>fi \<in> set (files_of_module (info (pass1 env paths)) m). set (fi_cols fi))"
proof (induction paths rule: rev_induct)
  case Nil
  then show ?case by (simp add: pass1_def files_of_module_def)
next
  case (snoc p ps)
  show ?case
    by (auto simp: pass1_snoc union_pass1_step info_pass1_step snoc.IH files_of_module_def
          split: option.splits if_splits)
qed

lemma logged_pass1_step:
  "set (logged (pass1_step env st p)) =
     set (logged st) \<union> (case detect_module_from_filename (basename p) of
        None \<Rightarrow> {NoModule (basename p)}
      | Some m \<Rightarrow> (case headers_only env p of Inl e \<Rightarrow> {HeadersFailed (basename p) e} | Inr r \<Rightarrow> {}))"
  by (auto simp: pass1_step_def Let_def split: option.splits sum.splits prod.splits)

lemma logged_pass1:
  "set (logged (pass1 env paths)) =
     (\<Union>p \<in> set paths. case detect_module_from_filename (basename p) of
        None \<Rightarrow> {NoModule (basename p)}
      | Some m \<Rightarrow> (case headers_only env p of Inl e \<Rightarrow> {HeadersFailed (basename p) e} | Inr r \<Rightarrow> {}))"
proof (induction paths rule: rev_induct)
  case Nil
  then show ?case by (simp add: pass1_def)
next
  case (snoc p ps)
  show ?case
    by (simp add: pass1_snoc logged_pass1_step snoc.IH Un_commute)
qed

lemma scanned_path: "scanned env p = Some fi \<Longrightarrow> fi_path fi = p"
  by (auto simp: scanned_def split: option.splits sum.splits prod.splits)

lemma scanned_headers:
  "scanned env p = Some fi \<Longrightarrow> headers_only env p = Inr (fi_cols fi, fi_encoding fi, fi_delimiter fi)"
  by (auto simp: scanned_def split: option.splits sum.splits prod.splits)

lemma opt_list_mem: "fi \<in> set (case x of None \<Rightarrow> [] | Some f \<Rightarrow> [f]) \<longleftrightarrow> x = Some fi"
  by (cases x) auto

lemma info_pass1_mem:
  "fi \<in> set (info (pass1 env paths)) \<longleftrightarrow> (\<exists>p \<in> set paths. scanned env p = Some fi)"
  by (simp add: info_pass1 opt_list_mem) metis

text \<open>
  Claim C6. Every file that pass 1 keeps has more than zero header columns, and they are
  the header parse of the file under the encoding and delimiter that were accepted. A
  file on which no candidate encoding and delimiter gives more than zero columns makes
  \<open>headers_only\<close> raise; pass 1 logs the failure, keeps no entry for the file, and its
  result for the other files is what it would be without the file.
\<close>

theorem header_sniffer_contract:
  "(fi \<in> set (info (pass1 env paths)) \<longrightarrow>
       0 < length (fi_cols fi)
       \<and> header_parsed env (fi_path fi) (fi_cols fi) (fi_encoding fi) (fi_delimiter fi))
   \<and> (read_bytes env p = Inr data \<and> no_candidate env p data \<longrightarrow>
       headers_only env p = Inl UnicodeDecodeError
       \<and> (fi \<in> set (info (pass1 env paths)) \<longrightarrow> fi_path fi \<noteq> p)
       \<and> (p \<in> set paths \<and> detect_module_from_filename (basename p) \<noteq> None \<longrightarrow>
            HeadersFailed (basename p) UnicodeDecodeError \<in> set (logged (pass1 env paths)))
       \<and> info (pass1 env (ps @ p # qs)) = info (pass1 env (ps @ qs))
       \<and> module_to_union (pass1 env (ps @ p # qs)) = module_to_union (pass1 env (ps @ qs)))"
proof (intro conjI impI)
  assume "fi \<in> set (info (pass1 env paths))"
  then obtain q where "scanned env q = Some fi" by (auto simp: info_pass1_mem)
  from headers_only_Inr[OF scanned_headers[OF this]] scanned_path[OF this]
  show "0 < length (fi_cols fi)"
    and "header_parsed env (fi_path fi) (fi_cols fi) (fi_encoding fi) (fi_delimiter fi)"
    by auto
next
  assume a: "read_bytes env p = Inr data \<and> no_candidate env p data"
  then show h: "headers_only env p = Inl UnicodeDecodeError"
    by (simp add: headers_only_fails)
  hence s: "scanned env p = None" by (simp add: scanned_def split: option.splits)
  show i: "info (pass1 env (ps @ p # qs)) = info (pass1 env (ps @ qs))"
    by (simp add: info_pass1 s)
  show "module_to_union (pass1 env (ps @ p # qs)) = module_to_union (pass1 env (ps @ qs))"
    by (rule ext) (simp add: union_pass1 i)
  {
    assume "fi \<in> set (info (pass1 env paths))"
    then obtain q where "scanned env q = Some fi" by (auto simp: info_pass1_mem)
    with s scanned_path[OF this] show "fi_path fi \<noteq> p" by auto
  }
  {
    assume "p \<in> set paths \<and> detect_module_from_filename (basename p) \<noteq> None"
    with h show "HeadersFailed (basename p) UnicodeDecodeError \<in> set (logged (pass1 env paths))"
      by (force simp: logged_pass1)
  }
qed

subsection \<open>Columns and row counts through \<open>load_one\<close> and the writer\<close>

lemma columns_set_col:
  "columns (set_col df c vals) = (if c \<in> set (columns df) then columns df else columns df @ [c])"
  by (simp add: set_col_def)

lemma length_rows_set_col:
  "length vals = length (rows df) \<Longrightarrow> length (rows (set_col df c vals)) = length (rows df)"
  by (simp add: set_col_def)

lemma pad_missing_props:
  "length (rows (pad_missing df cs)) = length (rows df)
   \<and> set (columns (pad_missing df cs)) = set (columns df) \<union> set cs"
  unfolding pad_missing_def
proof (induction cs arbitrary: df)
  case Nil
  then show ?case by simp
next
  case (Cons c cs)
  show ?case
    by (auto simp: Cons.IH length_rows_set_col columns_set_col)
qed

lemma reindex_props: "columns (reindex df cs) = cs" "length (rows (reindex df cs)) = length (rows df)"
  by (simp_all add: reindex_def)

lemma length_column_values: "length (column_values df c) = length (rows df)"
  by (simp add: column_values_def)

lemma foldl_set_col_props:
  assumes "\<And>d c. length (f d c) = length (rows d)" "set cs \<subseteq> set (columns df)"
  shows "columns (foldl (\<lambda>d c. set_col d c (f d c)) df cs) = columns df
       \<and> length (rows (foldl (\<lambda>d c. set_col d c (f d c)) df cs)) = length (rows df)"
  using assms(2)
proof (induction cs arbitrary: df)
  case Nil
  then show ?case by simp
next
  case (Cons c cs)
  have c: "columns (set_col df c (f df c)) = columns df"
    using Cons.prems by (simp add: columns_set_col)
  have r: "length (rows (set_col df c (f df c))) = length (rows df)"
    by (simp add: length_rows_set_col assms(1))
  from Cons.IH[of "set_col df c (f df c)"] Cons.prems c r show ?case by simp
qed

lemma final_casts_props:
  assumes "set META \<subseteq> set (columns df)"
  shows "columns (final_casts df) = columns df \<and> length (rows (final_casts df)) = length (rows df)"
proof -
  let ?df1 = "set_col df ''anio'' (map to_Int64 (column_values df ''anio''))"
  let ?df2 = "set_col ?df1 ''trimestre'' (map to_Int64 (column_values ?df1 ''trimestre''))"
  let ?df3 = "set_col ?df2 ''anio_trimestre''
                  (map (\<lambda>(a, t). year_quarter_label a t)
                     (zip (column_values ?df2 ''anio'') (column_values ?df2 ''trimestre'')))"
  have c1: "columns ?df1 = columns df" and r1: "length (rows ?df1) = length (rows df)"
    using assms by (simp_all add: columns_set_col length_rows_set_col length_column_values META_def)
  have c2: "columns ?df2 = columns df" and r2: "length (rows ?df2) = length (rows df)"
    using assms c1 r1 by (simp_all add: columns_set_col length_rows_set_col length_column_values META_def)
  have c3: "columns ?df3 = columns df" and r3: "length (rows ?df3) = length (rows df)"
    using assms c2 r2 by (simp_all add: columns_set_col length_rows_set_col length_column_values META_def)
  have "columns (foldl (\<lambda>d c. set_col d c (map astype_string (column_values d c))) ?df3
            (filter (\<lambda>c. c \<notin> set META) (columns ?df3))) = columns ?df3
       \<and> length (rows (foldl (\<lambda>d c. set_col d c (map astype_string (column_values d c))) ?df3
            (filter (\<lambda>c. c \<notin> set META) (columns ?df3)))) = length (rows ?df3)"
    by (rule foldl_set_col_props) (auto simp: length_column_values)
  then show ?thesis
    unfolding final_casts_def Let_def using c3 r3 by simp
qed

lemma insert_col_Inr:
  "insert_col df i name vals = Inr df' \<Longrightarrow>
     length (rows df') = length (rows df)
     \<and> columns df' = take i (columns df) @ [name] @ drop i (columns df)"
  by (auto simp: insert_col_def split: if_splits)

lemma add_meta_cols_Inr:
  assumes "add_meta_cols df a t = Inr df'"
  shows "length (rows df') = length (rows df) \<and> columns df' = META @ columns df"
proof -
  from assms obtain s1 s2 df1 df2 v3 where
    i1: "insert_col df 0 ''anio'' s1 = Inr df1" and
    i2: "insert_col df1 1 ''trimestre'' s2 = Inr df2" and
    i3: "insert_col df2 2 ''anio_trimestre'' v3 = Inr df'"
    by (auto simp: add_meta_cols_def Let_def split: prod.splits sum.splits)
  from insert_col_Inr[OF i1] insert_col_Inr[OF i2] insert_col_Inr[OF i3]
  show ?thesis by (simp add: META_def)
qed

lemma final_cols_of_META: "set META \<subseteq> set (final_cols_of it S)" "take 3 (final_cols_of it S) = META"
  by (simp_all add: final_cols_of_def META_def)

lemma load_one_Inr:
  assumes "load_one env fi (final_cols_of it S) = Inr df'"
  shows "columns df' = final_cols_of it S \<and> length (rows df') = file_rows env fi"
proof -
  from assms obtain df df1 where
    r: "read_full_csv_robust env (fi_path fi) (fi_encoding fi) (fi_delimiter fi) = Inr df" and
    a: "add_meta_cols df (fi_anio fi) (fi_tri fi) = Inr df1" and
    d: "df' = final_casts (reindex (pad_missing df1 (final_cols_of it S)) (final_cols_of it S))"
    by (auto simp: load_one_def split: sum.splits)
  have "set META \<subseteq> set (columns (reindex (pad_missing df1 (final_cols_of it S)) (final_cols_of it S)))"
    by (simp add: reindex_props final_cols_of_META)
  from final_casts_props[OF this] add_meta_cols_Inr[OF a] show ?thesis
    by (simp add: d reindex_props pad_missing_props file_rows_def r)
qed


lemma write_rest_schema: "write_rest w ps = (w', r) \<Longrightarrow> pq_schema w' = pq_schema w"
  by (induction ps arbitrary: w) (auto simp: Let_def split: sum.splits)

lemma write_rest_None:
  "write_rest w ps = (w', None) \<Longrightarrow>
     pq_closed w' \<and> (\<forall>p \<in> set ps. \<exists>df. p = Inr df)
     \<and> length (pq_rows w') =
         length (pq_rows w) + sum_list (map (\<lambda>p. case p of Inl e \<Rightarrow> 0 | Inr df \<Rightarrow> length (rows df)) ps)"
proof (induction ps arbitrary: w)
  case Nil
  then show ?case by auto
next
  case (Cons p ps)
  then show ?case
    by (cases p) (auto simp: Let_def reindex_props pad_missing_props)
qed

lemma write_rest_Some:
  "write_rest w ps = (w', Some e) \<Longrightarrow> pq_closed w' = pq_closed w"
  by (induction ps arbitrary: w) (auto simp: Let_def split: sum.splits)


lemma write_single_Some:
  assumes "write_single_parquet_from_ddf parts = (Some w, r)"
  shows "(\<exists>first_df ps. parts = Inr first_df # ps \<and> pq_schema w = columns first_df)
       \<and> (pq_closed w \<longleftrightarrow> r = None)"
proof -
  from assms obtain first_df ps where
    p: "parts = Inr first_df # ps" and
    w: "write_rest \<lparr>pq_schema = columns first_df, pq_rows = rows first_df, pq_closed = False\<rparr> ps = (w, r)"
    by (auto simp: write_single_parquet_from_ddf_def split: list.splits sum.splits prod.splits)
  have "pq_closed w \<longleftrightarrow> r = None"
  proof (cases r)
    case None
    with write_rest_None[of _ ps w] w show ?thesis by simp
  next
    case (Some e)
    with write_rest_Some[of _ ps w e] w show ?thesis by simp
  qed
  with write_rest_schema[OF w] p show ?thesis by simp
qed


lemma build_loop_mem:
  "(m, w) \<in> set (fst (build_loop env it fis un ms)) \<Longrightarrow>
     m \<in> set ms \<and> files_of_module fis m \<noteq> [] \<and> (\<exists>r. build_module env it fis un m = (Some w, r))"
proof (induction ms)
  case Nil
  then show ?case by simp
next
  case (Cons a ms)
  then show ?case
    by (auto split: if_splits prod.splits option.splits)
qed




lemma run_pipeline_mem:
  assumes "(m, w) \<in> set (fst (run_pipeline env it paths))"
  shows "files_of_module (info (pass1 env paths)) m \<noteq> []
       \<and> (\<exists>r. build_module env it (info (pass1 env paths)) (module_to_union (pass1 env paths)) m = (Some w, r))"
proof -
  from assms have "(m, w) \<in> set (fst (build_loop env it (info (pass1 env paths))
        (module_to_union (pass1 env paths)) MODULES))"
    by (auto simp: run_pipeline_def build_with_dask_def Let_def split: if_splits)
  from build_loop_mem[OF this] show ?thesis by simp
qed

lemma sum_files_of_module:
  "sum_list (map f (files_of_module (info (pass1 env paths)) m)) =
     sum_list (map (\<lambda>p. case scanned env p of None \<Rightarrow> 0
                        | Some fi \<Rightarrow> if fi_mod fi = m then f fi else (0::nat)) paths)"
  by (induction paths) (auto simp: info_pass1 files_of_module_def split: option.splits)


lemma first_error_None: "first_error ps = None \<longleftrightarrow> list_all (\<lambda>p. \<not> isl p) ps"
  by (induction ps) (auto split: sum.splits)


lemma write_rest_rows:
  "write_rest w ps = (w', r) \<Longrightarrow>
     r = first_error ps
     \<and> length (pq_rows w') =
         length (pq_rows w)
         + sum_list (map (\<lambda>p. case p of Inl e \<Rightarrow> 0 | Inr df \<Rightarrow> length (rows df))
                       (takeWhile (\<lambda>p. \<not> isl p) ps))"
proof (induction ps arbitrary: w)
  case Nil
  then show ?case by auto
next
  case (Cons p ps)
  then show ?case
    by (cases p) (auto simp: Let_def reindex_props pad_missing_props)
qed

lemma write_single_rows:
  assumes "write_single_parquet_from_ddf parts = (Some w, r)"
  shows "r = first_error parts
       \<and> length (pq_rows w) =
           sum_list (map (\<lambda>p. case p of Inl e \<Rightarrow> 0 | Inr df \<Rightarrow> length (rows df))
                       (takeWhile (\<lambda>p. \<not> isl p) parts))"
proof -
  from assms obtain first_df ps where
    p: "parts = Inr first_df # ps" and
    w: "write_rest \<lparr>pq_schema = columns first_df, pq_rows = rows first_df, pq_closed = False\<rparr> ps = (w, r)"
    by (auto simp: write_single_parquet_from_ddf_def split: list.splits sum.splits prod.splits)
  from write_rest_rows[OF w] show ?thesis by (simp add: p)
qed





lemma files_of_module_paths:
  "files_of_module (info (pass1 env paths)) m =
     concat (map (\<lambda>p. case scanned env p of None \<Rightarrow> []
                       | Some fi \<Rightarrow> if fi_mod fi = m then [fi] else []) paths)"
  by (induction paths) (auto simp: info_pass1 files_of_module_def split: option.splits)

text \<open>
  Claim C2, as the code has it. The files of a module are those that pass 1 kept, in the
  order of the input: a file with no module or whose header scan failed is not among
  them and contributes no row. An output of the module holds the rows of its files up to
  the first one whose load fails, so their number is the sum of the rows read from
  these files. The output is closed exactly when every file of the module loads, and
  then the number of rows is the sum over all the input files of the module. A file
  whose load fails is not dropped: the writer stops at it, and the files of the module
  after it contribute no row either.
\<close>

theorem row_count_conservation:
  assumes "(m, w) \<in> set (fst (run_pipeline env it paths))"
  shows "files_of_module (info (pass1 env paths)) m =
           concat (map (\<lambda>p. case scanned env p of None \<Rightarrow> []
                             | Some fi \<Rightarrow> if fi_mod fi = m then [fi] else []) paths)
       \<and> length (pq_rows w) =
           sum_list (map (file_rows env)
                       (takeWhile (loads env it paths) (files_of_module (info (pass1 env paths)) m)))
       \<and> (pq_closed w \<longleftrightarrow> list_all (loads env it paths) (files_of_module (info (pass1 env paths)) m))
       \<and> (pq_closed w \<longrightarrow>
            length (pq_rows w) =
              sum_list (map (\<lambda>p. case scanned env p of None \<Rightarrow> 0
                             | Some fi \<Rightarrow> if fi_mod fi = m then file_rows env fi else 0) paths))"
proof -
  let ?fis = "info (pass1 env paths)" and ?un = "module_to_union (pass1 env paths)"
  let ?fc = "final_cols_of it (?un m)"
  let ?fs = "files_of_module ?fis m"
  let ?parts = "map (\<lambda>fi. load_one env fi ?fc) ?fs"
  let ?len = "\<lambda>p. case p of Inl e \<Rightarrow> 0 | Inr df \<Rightarrow> length (rows df)"
  from run_pipeline_mem[OF assms] obtain r where
    b: "write_single_parquet_from_ddf ?parts = (Some w, r)"
    by (auto simp: build_module_def)
  have lo: "loads env it paths fi \<longleftrightarrow> \<not> isl (load_one env fi ?fc)" if "fi \<in> set ?fs" for fi
    using that by (simp add: loads_def files_of_module_def)
  have tw: "takeWhile (\<lambda>p. \<not> isl p) ?parts = map (\<lambda>fi. load_one env fi ?fc) (takeWhile (loads env it paths) ?fs)"
    using lo by (simp add: takeWhile_map comp_def cong: takeWhile_cong)
  have fr: "?len (load_one env fi ?fc) = file_rows env fi"
    if "fi \<in> set (takeWhile (loads env it paths) ?fs)" for fi
  proof -
    from that have "fi \<in> set ?fs" "loads env it paths fi"
      by (auto dest: set_takeWhileD)
    with lo obtain df where "load_one env fi ?fc = Inr df"
      by (cases "load_one env fi ?fc") auto
    with load_one_Inr[OF this] show ?thesis by simp
  qed
  from write_single_rows[OF b] have
    r: "r = first_error ?parts" and
    len: "length (pq_rows w) = sum_list (map ?len (takeWhile (\<lambda>p. \<not> isl p) ?parts))"
    by auto
  have 1: "length (pq_rows w) = sum_list (map (file_rows env) (takeWhile (loads env it paths) ?fs))"
    using fr by (simp add: len tw comp_def cong: map_cong)
  have "pq_closed w \<longleftrightarrow> r = None"
    using write_single_Some[OF b] by simp
  also have "\<dots> \<longleftrightarrow> list_all (\<lambda>p. \<not> isl p) ?parts"
    by (simp add: r first_error_None)
  also have "\<dots> \<longleftrightarrow> list_all (loads env it paths) ?fs"
    using lo by (simp add: list_all_iff)
  finally have 2: "pq_closed w \<longleftrightarrow> list_all (loads env it paths) ?fs" .
  have 3: "length (pq_rows w) =
              sum_list (map (\<lambda>p. case scanned env p of None \<Rightarrow> 0
                             | Some fi \<Rightarrow> if fi_mod fi = m then file_rows env fi else 0) paths)"
    if "pq_closed w"
  proof -
    from that 2 have "takeWhile (loads env it paths) ?fs = ?fs"
      by (simp add: list_all_iff)
    with 1 show ?thesis by (simp add: sum_files_of_module)
  qed
  from 1 2 3 show ?thesis by (simp add: files_of_module_paths)
qed

subsection \<open>The schema of an output\<close>

lemma sort_key_unique:
  assumes "distinct xs" "distinct ys" "set xs = set ys" "inj_on f (set xs)"
  shows "sort_key f xs = sort_key f ys"
proof -
  have "sorted (map f (sort_key f xs))" "sorted (map f (sort_key f ys))"
    by (simp_all add: sorted_sort_key)
  moreover have "distinct (map f (sort_key f xs))" "distinct (map f (sort_key f ys))"
    using assms by (simp_all add: distinct_map)
  moreover have "set (map f (sort_key f xs)) = set (map f (sort_key f ys))"
    using assms(3) by simp
  ultimately have "map f (sort_key f xs) = map f (sort_key f ys)"
    by (intro sorted_distinct_set_unique)
  moreover have "inj_on f (set (sort_key f xs) \<union> set (sort_key f ys))"
    using assms by simp
  ultimately show ?thesis by (simp add: inj_on_map_eq_map)
qed

lemma finite_union_pass1: "finite (module_to_union (pass1 env paths) m)"
  by (simp add: union_pass1)

lemma union_pass1_paths:
  "module_to_union (pass1 env paths) m =
     (\<Union>p \<in> set paths. case scanned env p of None \<Rightarrow> {}
        | Some fi \<Rightarrow> if fi_mod fi = m then set (fi_cols fi) else {})"
proof (induction paths rule: rev_induct)
  case Nil
  then show ?case by (simp add: pass1_def)
next
  case (snoc p ps)
  then show ?case by (simp add: pass1_snoc union_pass1_step Un_commute)
qed

text \<open>
  Claim C1, as the code has it. For every module that gets an output, the columns of the
  output are the three metadata columns followed by the header columns of the scanned
  files of the module other than those three names, each name once as it is written,
  ordered by lower-cased name. So every header column is a column of the output; names
  that differ only in case stay separate columns; and when no two names differ only in
  case, the order does not depend on the order in which the set is iterated.
\<close>

theorem final_columns_schema:
  assumes "set_iteration it" "(m, w) \<in> set (fst (run_pipeline env it paths))"
  shows "pq_schema w = final_cols_of it (module_to_union (pass1 env paths) m)
       \<and> module_to_union (pass1 env paths) m =
           (\<Union>p \<in> set paths. case scanned env p of None \<Rightarrow> {}
              | Some fi \<Rightarrow> if fi_mod fi = m then set (fi_cols fi) else {})
       \<and> take 3 (pq_schema w) = META
       \<and> set (pq_schema w) = set META \<union> module_to_union (pass1 env paths) m
       \<and> distinct (pq_schema w)
       \<and> sorted (map str_lower (drop 3 (pq_schema w)))
       \<and> (set_iteration it' \<and> inj_on str_lower (module_to_union (pass1 env paths) m) \<longrightarrow>
            final_cols_of it' (module_to_union (pass1 env paths) m) = pq_schema w)"
proof -
  let ?U = "module_to_union (pass1 env paths) m"
  let ?fc = "final_cols_of it ?U"
  have fin: "finite ?U" by (rule finite_union_pass1)
  hence it: "set (it ?U) = ?U" "distinct (it ?U)"
    using assms(1) by (simp_all add: set_iteration_def)
  from run_pipeline_mem[OF assms(2)] obtain r where
    b: "write_single_parquet_from_ddf
          (map (\<lambda>fi. load_one env fi ?fc) (files_of_module (info (pass1 env paths)) m)) = (Some w, r)"
    by (auto simp: build_module_def)
  from write_single_Some[OF b] obtain first_df ps fi where
    "load_one env fi ?fc = Inr first_df" "pq_schema w = columns first_df"
    by (auto simp: map_eq_Cons_conv)
  with load_one_Inr[of env fi it ?U first_df] have s: "pq_schema w = ?fc" by simp
  have "set ?fc = set META \<union> ?U"
    by (auto simp: final_cols_of_def it)
  moreover have "distinct ?fc"
    by (auto simp: final_cols_of_def it META_def)
  moreover have "sorted (map str_lower (drop 3 ?fc))"
    by (simp add: final_cols_of_def META_def sorted_filter sorted_sort_key)
  moreover have "final_cols_of it' ?U = ?fc" if "set_iteration it'" "inj_on str_lower ?U"
  proof -
    from that(1) fin have "set (it' ?U) = ?U" "distinct (it' ?U)"
      by (simp_all add: set_iteration_def)
    with it that(2) have "sort_key str_lower (it' ?U) = sort_key str_lower (it ?U)"
      by (intro sort_key_unique) simp_all
    then show ?thesis by (simp add: final_cols_of_def)
  qed
  ultimately show ?thesis
    using s by (simp add: final_cols_of_META union_pass1_paths[symmetric])
qed

subsection \<open>A load that fails\<close>




subsection \<open>The metadata cells of a loaded file\<close>
















lemma length_cast3: "length x = 3 \<Longrightarrow> length (cast3 x) = 3"
  by (auto simp: cast3_def length_Suc_conv numeral_3_eq_3)








subsection \<open>The geographic catalog\<close>

text \<open>
  Claim C8. When the catalog table lacks one of the expected columns, \<open>read_catalog\<close>
  raises \<open>ValueError\<close> and the script ends with it before any table is labelled.
\<close>

theorem catalog_schema_mismatch_aborts:
  assumes "read_catalog_frame env CATALOGO_PATH = Inr df"
    and "c \<in> set expected_cols" "c \<notin> set (columns df)"
  shows "read_catalog env CATALOGO_PATH = Inl ValueError
       \<and> label_main env label_one = ([], [], Some ValueError)"
proof -
  have "filter (\<lambda>c. c \<notin> set (columns df)) expected_cols \<noteq> []"
    using assms(2,3) by (auto simp: filter_empty_conv)
  hence "read_catalog env CATALOGO_PATH = Inl ValueError"
    by (simp add: read_catalog_def assms(1))
  then show ?thesis by (simp add: label_main_def)
qed

subsection \<open>The example world, evaluated\<close>


lemmas ex_header_defs = headers_only_def sniff_encoding_def ex_env_def ex_files_def
  sniff_encoding_head_def starts_with_def encodings_try_def ex_decoded_def sniff_delimiter_def
  accepted_def ex_parse_header_def ex_headers_def

lemma ex_headers_only:
  "headers_only ex_env ''HOGT_2024_trim3.csv'' = Inr ([''ent'', ''per''], ''utf-8'', CHR '','')"
  "headers_only ex_env ''hogt_2019.csv'' = Inr ([''ENT'', ''per''], ''utf-8'', CHR '','')"
  "headers_only ex_env ''coe1_2024.csv'' = Inr ([''ent'', ''per''], ''utf-8'', CHR '','')"
  "headers_only ex_env ''sdemt_2019.csv'' = Inr ([''ENT'', ''per''], ''utf-8'', CHR '','')"
  "headers_only ex_env ''sdemt_bad.csv'' = Inr ([''a'', ''b''], ''utf-8'', CHR '','')"
  "headers_only ex_env ''ENOE_HOGT__enoe_2024_trim3_csv.csv'' = Inr ([''ent'', ''per''], ''utf-8'', CHR '','')"
  "headers_only ex_env ''sdemt_new.csv'' = Inr ([''ENT'', ''per''], ''utf-8'', CHR '','')"
  by (simp_all add: ex_header_defs)

lemma ex_empty:
  "read_bytes ex_env ''vivt_empty.csv'' = Inr []" "no_candidate ex_env ''vivt_empty.csv'' []"
  by (simp_all add: no_candidate_def ex_header_defs delimiters_def ex_text_of_def)

lemma ex_headers_empty: "headers_only ex_env ''vivt_empty.csv'' = Inl UnicodeDecodeError"
  by (simp add: headers_only_fails[OF ex_empty(1)] ex_empty(2))

lemma ex_names:
  "basename ''HOGT_2024_trim3.csv'' = ''HOGT_2024_trim3.csv''"
  "basename ''hogt_2019.csv'' = ''hogt_2019.csv''"
  "basename ''vivt_empty.csv'' = ''vivt_empty.csv''"
  "basename ''notes.csv'' = ''notes.csv''"
  "basename ''coe1_2024.csv'' = ''coe1_2024.csv''"
  "basename ''sdemt_2019.csv'' = ''sdemt_2019.csv''"
  "basename ''sdemt_bad.csv'' = ''sdemt_bad.csv''"
  "basename ''ENOE_HOGT__enoe_2024_trim3_csv.csv'' = ''ENOE_HOGT__enoe_2024_trim3_csv.csv''"
  "detect_module_from_filename ''HOGT_2024_trim3.csv'' = Some ''HOGT''"
  "detect_module_from_filename ''hogt_2019.csv'' = Some ''HOGT''"
  "detect_module_from_filename ''vivt_empty.csv'' = Some ''VIVT''"
  "detect_module_from_filename ''notes.csv'' = None"
  "detect_module_from_filename ''coe1_2024.csv'' = Some ''COE1T''"
  "detect_module_from_filename ''sdemt_2019.csv'' = Some ''SDEMT''"
  "detect_module_from_filename ''sdemt_bad.csv'' = Some ''SDEMT''"
  "detect_module_from_filename ''ENOE_HOGT__enoe_2024_trim3_csv.csv'' = Some ''HOGT''"
  "parse_year_trim_from_name ''HOGT_2024_trim3.csv'' = (Some 2024, Some 3)"
  "parse_year_trim_from_name ''hogt_2019.csv'' = (None, None)"
  "parse_year_trim_from_name ''coe1_2024.csv'' = (None, None)"
  "parse_year_trim_from_name ''sdemt_2019.csv'' = (None, None)"
  "parse_year_trim_from_name ''sdemt_bad.csv'' = (None, None)"
  "parse_year_trim_from_name ''ENOE_HOGT__enoe_2024_trim3_csv.csv'' = (None, None)"
  "basename ''sdemt_new.csv'' = ''sdemt_new.csv''"
  "detect_module_from_filename ''sdemt_new.csv'' = Some ''SDEMT''"
  "parse_year_trim_from_name ''sdemt_new.csv'' = (None, None)"
  by code_simp+

lemma ex_scanned:
  "scanned ex_env ''HOGT_2024_trim3.csv'' = Some ex_fiA"
  "scanned ex_env ''hogt_2019.csv'' = Some ex_fiB"
  "scanned ex_env ''vivt_empty.csv'' = None"
  "scanned ex_env ''notes.csv'' = None"
  "scanned ex_env ''sdemt_bad.csv'' = Some ex_fi_bad"
  "scanned ex_env ''ENOE_HOGT__enoe_2024_trim3_csv.csv'' = Some ex_fi_csv"
  "scanned ex_env ''coe1_2024.csv'' = Some ex_fi_coe"
  "scanned ex_env ''sdemt_2019.csv'' = Some ex_fi_sd"
  "scanned ex_env ''sdemt_new.csv'' = Some ex_fi_new"
  by (simp_all add: scanned_def ex_names ex_headers_only ex_headers_empty
        ex_fiA_def ex_fiB_def ex_fi_bad_def ex_fi_csv_def ex_fi_coe_def ex_fi_sd_def ex_fi_new_def)

lemma ex_final_cols:
  "final_cols_of sorted_list_of_set {''ent'', ''per'', ''ENT''} =
     [''anio'', ''trimestre'', ''anio_trimestre'', ''ENT'', ''ent'', ''per'']"
  "final_cols_of sorted_list_of_set {''ent'', ''per''} =
     [''anio'', ''trimestre'', ''anio_trimestre'', ''ent'', ''per'']"
  "final_cols_of sorted_list_of_set {''ENT'', ''per'', ''a'', ''b''} =
     [''anio'', ''trimestre'', ''anio_trimestre'', ''a'', ''b'', ''ENT'', ''per'']"
  by code_simp+

lemma ex_load:
  "load_one ex_env ex_fiA [''anio'', ''trimestre'', ''anio_trimestre'', ''ENT'', ''ent'', ''per''] =
     Inr \<lparr>columns = [''anio'', ''trimestre'', ''anio_trimestre'', ''ENT'', ''ent'', ''per''],
          rows = [[IntV 2024, IntV 3, StrV ''2024T3'', NA, StrV ''9'', StrV ''123'']]\<rparr>"
  "load_one ex_env ex_fiB [''anio'', ''trimestre'', ''anio_trimestre'', ''ENT'', ''ent'', ''per''] =
     Inr \<lparr>columns = [''anio'', ''trimestre'', ''anio_trimestre'', ''ENT'', ''ent'', ''per''],
          rows = [[IntV 2019, IntV 4, StrV ''2019T4'', StrV ''01'', NA, StrV ''419'']]\<rparr>"
  "load_one ex_env ex_fiA [''anio'', ''trimestre'', ''anio_trimestre'', ''ent'', ''per''] =
     Inr \<lparr>columns = [''anio'', ''trimestre'', ''anio_trimestre'', ''ent'', ''per''],
          rows = [[IntV 2024, IntV 3, StrV ''2024T3'', StrV ''9'', StrV ''123'']]\<rparr>"
  "load_one ex_env ex_fi_csv [''anio'', ''trimestre'', ''anio_trimestre'', ''ent'', ''per''] =
     Inr \<lparr>columns = [''anio'', ''trimestre'', ''anio_trimestre'', ''ent'', ''per''],
          rows = [[IntV 2023, IntV 1, StrV ''2023T1'', StrV ''9'', StrV ''123'']]\<rparr>"
  "load_one ex_env ex_fi_coe [''anio'', ''trimestre'', ''anio_trimestre'', ''ent'', ''per''] =
     Inr \<lparr>columns = [''anio'', ''trimestre'', ''anio_trimestre'', ''ent'', ''per''],
          rows = [[IntV 2023, IntV 1, StrV ''2023T1'', StrV ''9'', StrV ''123'']]\<rparr>"
  "load_one ex_env ex_fi_sd [''anio'', ''trimestre'', ''anio_trimestre'', ''a'', ''b'', ''ENT'', ''per''] =
     Inr \<lparr>columns = [''anio'', ''trimestre'', ''anio_trimestre'', ''a'', ''b'', ''ENT'', ''per''],
          rows = [[IntV 2019, IntV 4, StrV ''2019T4'', NA, NA, StrV ''01'', StrV ''419'']]\<rparr>"
  "load_one ex_env ex_fi_bad fc = Inl ParserError"
  "read_full_csv_robust ex_env ''HOGT_2024_trim3.csv'' ''utf-8'' (CHR '','') =
     Inr \<lparr>columns = [''ent'', ''per''], rows = [[StrV ''9'', StrV ''123'']]\<rparr>"
  "read_full_csv_robust ex_env ''hogt_2019.csv'' ''utf-8'' (CHR '','') =
     Inr \<lparr>columns = [''ENT'', ''per''], rows = [[StrV ''01'', StrV ''419'']]\<rparr>"
  "read_full_csv_robust ex_env ''sdemt_bad.csv'' ''utf-8'' (CHR '','') = Inl ParserError"
  "load_one ex_env ex_fi_new [''anio'', ''trimestre'', ''anio_trimestre'', ''a'', ''b'', ''ENT'', ''per''] =
     Inr \<lparr>columns = [''anio'', ''trimestre'', ''anio_trimestre'', ''a'', ''b'', ''ENT'', ''per''],
          rows = [[IntV 2019, IntV 4, StrV ''2019T4'', NA, NA, StrV ''01'', StrV ''419'']]\<rparr>"
  "read_full_csv_robust ex_env ''sdemt_2019.csv'' ''utf-8'' (CHR '','') =
     Inr \<lparr>columns = [''ENT'', ''per''], rows = [[StrV ''01'', StrV ''419'']]\<rparr>"
  "read_full_csv_robust ex_env ''sdemt_new.csv'' ''utf-8'' (CHR '','') =
     Inr \<lparr>columns = [''ENT'', ''per''], rows = [[StrV ''01'', StrV ''419'']]\<rparr>"
  by code_simp+

lemma ex_info: "info (pass1 ex_env ex_paths) = [ex_fiA, ex_fiB]"
  by (simp add: info_pass1 ex_paths_def ex_scanned)

lemma ex_union: "module_to_union (pass1 ex_env ex_paths) ''HOGT'' = {''ent'', ''per'', ''ENT''}"
  by (auto simp: union_pass1_paths ex_paths_def ex_scanned ex_fiA_def ex_fiB_def)

lemma ex_run: "run_pipeline ex_env sorted_list_of_set ex_paths = ([(''HOGT'', ex_out)], None)"
proof -
  have f: "files_of_module [ex_fiA, ex_fiB] m = (if m = ''HOGT'' then [ex_fiA, ex_fiB] else [])" for m
    by (auto simp: files_of_module_def ex_fiA_def ex_fiB_def)
  have b: "build_module ex_env sorted_list_of_set [ex_fiA, ex_fiB]
             (module_to_union (pass1 ex_env ex_paths)) ''HOGT'' = (Some ex_out, None)"
    by (simp add: build_module_def f ex_union ex_final_cols ex_load
          write_single_parquet_from_ddf_def ex_out_def)
  have ne: "ex_paths \<noteq> []" by (simp add: ex_paths_def)
  show ?thesis
    by (simp add: run_pipeline_def build_with_dask_def MODULES_def ex_info f b ne Let_def)
qed

lemma ex_info_one: "info (pass1 ex_env [''HOGT_2024_trim3.csv'']) = [ex_fiA]"
  by (simp add: info_pass1 ex_scanned)

lemma ex_union_one: "module_to_union (pass1 ex_env [''HOGT_2024_trim3.csv'']) ''HOGT'' = {''ent'', ''per''}"
  by (auto simp: union_pass1_paths ex_scanned ex_fiA_def)

lemma ex_run_one: "run_pipeline ex_env sorted_list_of_set [''HOGT_2024_trim3.csv''] = ([(''HOGT'', ex_out_one)], None)"
proof -
  have f: "files_of_module [ex_fiA] m = (if m = ''HOGT'' then [ex_fiA] else [])" for m
    by (auto simp: files_of_module_def ex_fiA_def)
  have b: "build_module ex_env sorted_list_of_set [ex_fiA]
             (module_to_union (pass1 ex_env [''HOGT_2024_trim3.csv''])) ''HOGT'' = (Some ex_out_one, None)"
    by (simp add: build_module_def f ex_union_one ex_final_cols ex_load
          write_single_parquet_from_ddf_def ex_out_one_def)
  show ?thesis
    by (simp add: run_pipeline_def build_with_dask_def MODULES_def ex_info_one f b)
qed







lemma ex_fi_sel:
  "fi_delimiter ex_fi_bad = CHR '',''" "fi_encoding ex_fi_bad = ''utf-8''" "fi_mod ex_fi_bad = ''SDEMT''"
  "fi_delimiter ex_fiA = CHR '',''" "fi_encoding ex_fiA = ''utf-8''" "fi_path ex_fiA = ''HOGT_2024_trim3.csv''"
  "fi_cols ex_fiA = [''ent'', ''per'']"
  "fi_delimiter ex_fiB = CHR '',''" "fi_encoding ex_fiB = ''utf-8''"
  by (simp_all add: ex_fi_bad_def ex_fiA_def ex_fiB_def)

lemma ex_info_mid: "info (pass1 ex_env ex_mid_paths) = [ex_fi_sd, ex_fi_bad, ex_fi_new]"
  by (simp add: info_pass1 ex_mid_paths_def ex_scanned)

lemma ex_union_mid: "module_to_union (pass1 ex_env ex_mid_paths) ''SDEMT'' = {''ENT'', ''per'', ''a'', ''b''}"
  by (auto simp: union_pass1_paths ex_mid_paths_def ex_scanned ex_fi_bad_def ex_fi_new_def ex_fi_sd_def)

lemma ex_files_mid:
  "files_of_module [ex_fi_sd, ex_fi_bad, ex_fi_new] m =
     (if m = ''SDEMT'' then [ex_fi_sd, ex_fi_bad, ex_fi_new] else [])"
  by (auto simp: files_of_module_def ex_fi_new_def ex_fi_sd_def ex_fi_bad_def)

lemma ex_run_mid:
  "run_pipeline ex_env sorted_list_of_set ex_mid_paths = ([(''SDEMT'', ex_out_open)], Some ParserError)"
proof -
  have b: "build_module ex_env sorted_list_of_set [ex_fi_sd, ex_fi_bad, ex_fi_new]
             (module_to_union (pass1 ex_env ex_mid_paths)) ''SDEMT'' = (Some ex_out_open, Some ParserError)"
    by (simp add: build_module_def ex_files_mid ex_union_mid ex_final_cols ex_load
          write_single_parquet_from_ddf_def ex_out_open_def)
  have ne: "ex_mid_paths \<noteq> []" by (simp add: ex_mid_paths_def)
  show ?thesis
    by (simp add: run_pipeline_def build_with_dask_def MODULES_def ex_info_mid ex_files_mid b ne Let_def)
qed

lemma ex_sd_sel:
  "fi_mod ex_fi_sd = ''SDEMT''" "fi_mod ex_fi_new = ''SDEMT''"
  "fi_path ex_fi_sd = ''sdemt_2019.csv''" "fi_path ex_fi_new = ''sdemt_new.csv''"
  "fi_path ex_fi_bad = ''sdemt_bad.csv''"
  "fi_encoding ex_fi_sd = ''utf-8''" "fi_encoding ex_fi_new = ''utf-8''"
  "fi_delimiter ex_fi_sd = CHR '',''" "fi_delimiter ex_fi_new = CHR '',''"
  by (simp_all add: ex_fi_sd_def ex_fi_new_def ex_fi_bad_def)

lemma ex_loads_mid:
  "loads ex_env sorted_list_of_set ex_mid_paths ex_fi_sd"
  "\<not> loads ex_env sorted_list_of_set ex_mid_paths ex_fi_bad"
  "loads ex_env sorted_list_of_set ex_mid_paths ex_fi_new"
  by (simp_all add: loads_def ex_sd_sel ex_fi_sel ex_union_mid ex_final_cols ex_load)

lemma ex_file_rows:
  "file_rows ex_env ex_fi_sd = 1" "file_rows ex_env ex_fi_bad = 0" "file_rows ex_env ex_fi_new = 1"
  by (simp_all add: file_rows_def ex_sd_sel ex_fi_sel ex_load)

subsection \<open>The claims on the example world\<close>

text \<open>
  Claim C1 as stated fails: two files of one module with the headers \<open>ent,per\<close> and
  \<open>ENT,per\<close> give an output with both \<open>ENT\<close> and \<open>ent\<close>, so the columns are
  not deduplicated case-insensitively.
\<close>

theorem final_columns_not_case_deduplicated:
  "run_pipeline ex_env sorted_list_of_set ex_paths = ([(''HOGT'', ex_out)], None)
   \<and> pq_schema ex_out = [''anio'', ''trimestre'', ''anio_trimestre'', ''ENT'', ''ent'', ''per'']
   \<and> \<not> distinct (map str_lower (pq_schema ex_out))"
proof -
  have "str_lower ''ENT'' = ''ent''" "str_lower ''ent'' = ''ent''" by code_simp+
  then show ?thesis by (simp add: ex_run ex_out_def)
qed

lemma ex_inj: "inj_on str_lower {''ent'', ''per''}"
proof -
  have "str_lower ''per'' = ''per''" "str_lower ''ent'' = ''ent''" by code_simp+
  then show ?thesis by simp
qed

text \<open>The schema of the output of a single file, under two orders of iteration.\<close>

theorem final_columns_schema_witness:
  "pq_schema ex_out_one = final_cols_of sorted_list_of_set {''ent'', ''per''}
   \<and> take 3 (pq_schema ex_out_one) = META
   \<and> set (pq_schema ex_out_one) = set META \<union> {''ent'', ''per''}
   \<and> distinct (pq_schema ex_out_one)
   \<and> sorted (map str_lower (drop 3 (pq_schema ex_out_one)))
   \<and> final_cols_of (\<lambda>S. rev (sorted_list_of_set S)) {''ent'', ''per''} = pq_schema ex_out_one"
proof -
  have mem: "(''HOGT'', ex_out_one)
               \<in> set (fst (run_pipeline ex_env sorted_list_of_set [''HOGT_2024_trim3.csv'']))"
    by (simp add: ex_run_one)
  note t = final_columns_schema[OF set_iteration_sorted mem, of "\<lambda>S. rev (sorted_list_of_set S)",
              unfolded ex_union_one]
  from t have
    1: "pq_schema ex_out_one = final_cols_of sorted_list_of_set {''ent'', ''per''}" and
    3: "take 3 (pq_schema ex_out_one) = META" and
    4: "set (pq_schema ex_out_one) = set META \<union> {''ent'', ''per''}" and
    5: "distinct (pq_schema ex_out_one)" and
    6: "sorted (map str_lower (drop 3 (pq_schema ex_out_one)))" and
    7: "set_iteration (\<lambda>S. rev (sorted_list_of_set S)) \<and> inj_on str_lower {''ent'', ''per''} \<longrightarrow>
          final_cols_of (\<lambda>S. rev (sorted_list_of_set S)) {''ent'', ''per''} = pq_schema ex_out_one"
    by blast+
  from 7 set_iteration_rev ex_inj
  have 8: "final_cols_of (\<lambda>S. rev (sorted_list_of_set S)) {''ent'', ''per''} = pq_schema ex_out_one"
    by blast
  show ?thesis using 1 3 4 5 6 8 by blast
qed

text \<open>
  Claim C2 as stated fails: of three files of \<open>SDEMT\<close>, the first and the third load
  with one row each and the load of the second fails. The run ends at the second file:
  the output holds one row and is left open, and the row of the third file is lost.
\<close>

theorem failed_load_loses_rows:
  "map (scanned ex_env) ex_mid_paths = [Some ex_fi_sd, Some ex_fi_bad, Some ex_fi_new]
   \<and> map (loads ex_env sorted_list_of_set ex_mid_paths) [ex_fi_sd, ex_fi_bad, ex_fi_new]
       = [True, False, True]
   \<and> map (file_rows ex_env) [ex_fi_sd, ex_fi_bad, ex_fi_new] = [1, 0, 1]
   \<and> run_pipeline ex_env sorted_list_of_set ex_mid_paths
       = ([(''SDEMT'', ex_out_open)], Some ParserError)
   \<and> length (pq_rows ex_out_open) = 1
   \<and> \<not> pq_closed ex_out_open"
proof -
  have "map (scanned ex_env) ex_mid_paths = [Some ex_fi_sd, Some ex_fi_bad, Some ex_fi_new]"
    by (simp add: ex_mid_paths_def ex_scanned)
  moreover have "length (pq_rows ex_out_open) = 1" "\<not> pq_closed ex_out_open"
    by (simp_all add: ex_out_open_def)
  ultimately show ?thesis
    by (simp add: ex_loads_mid ex_file_rows ex_run_mid)
qed

text \<open>
  Two files of \<open>HOGT\<close> with one row each, one file with no module and one whose
  header scan fails: both files load, the output is closed and has two rows.
\<close>

theorem row_count_conservation_witness:
  "length (pq_rows ex_out) =
     sum_list (map (file_rows ex_env)
                 (takeWhile (loads ex_env sorted_list_of_set ex_paths)
                    (files_of_module (info (pass1 ex_env ex_paths)) ''HOGT'')))
   \<and> pq_closed ex_out
   \<and> list_all (loads ex_env sorted_list_of_set ex_paths)
        (files_of_module (info (pass1 ex_env ex_paths)) ''HOGT'')
   \<and> length (pq_rows ex_out) =
       sum_list (map (\<lambda>p. case scanned ex_env p of None \<Rightarrow> 0
                        | Some fi \<Rightarrow> if fi_mod fi = ''HOGT'' then file_rows ex_env fi else 0) ex_paths)
   \<and> length (pq_rows ex_out) = 2"
proof -
  have mem: "(''HOGT'', ex_out) \<in> set (fst (run_pipeline ex_env sorted_list_of_set ex_paths))"
    by (simp add: ex_run)
  have c: "pq_closed ex_out" "length (pq_rows ex_out) = 2"
    by (simp_all add: ex_out_def)
  note t = row_count_conservation[OF mem]
  from t have
    1: "length (pq_rows ex_out) =
          sum_list (map (file_rows ex_env)
             (takeWhile (loads ex_env sorted_list_of_set ex_paths)
                (files_of_module (info (pass1 ex_env ex_paths)) ''HOGT'')))" and
    2: "pq_closed ex_out \<longleftrightarrow> list_all (loads ex_env sorted_list_of_set ex_paths)
          (files_of_module (info (pass1 ex_env ex_paths)) ''HOGT'')" and
    3: "pq_closed ex_out \<longrightarrow> length (pq_rows ex_out) =
          sum_list (map (\<lambda>p. case scanned ex_env p of None \<Rightarrow> 0
                        | Some fi \<Rightarrow> if fi_mod fi = ''HOGT'' then file_rows ex_env fi else 0) ex_paths)"
    by blast+
  from 1 2 3 c show ?thesis by blast
qed







lemma ex_paths_split:
  "[''HOGT_2024_trim3.csv'', ''hogt_2019.csv'', ''notes.csv''] @ ''vivt_empty.csv'' # [] = ex_paths"
  "''vivt_empty.csv'' \<in> set ex_paths"
  by (simp_all add: ex_paths_def)

text \<open>The empty file \<open>vivt_empty.csv\<close> in the example batch.\<close>

theorem header_sniffer_contract_witness:
  "0 < length (fi_cols ex_fiA)
   \<and> header_parsed ex_env (fi_path ex_fiA) (fi_cols ex_fiA) (fi_encoding ex_fiA) (fi_delimiter ex_fiA)
   \<and> headers_only ex_env ''vivt_empty.csv'' = Inl UnicodeDecodeError
   \<and> fi_path ex_fiA \<noteq> ''vivt_empty.csv''
   \<and> HeadersFailed ''vivt_empty.csv'' UnicodeDecodeError \<in> set (logged (pass1 ex_env ex_paths))
   \<and> info (pass1 ex_env ex_paths) = info (pass1 ex_env [''HOGT_2024_trim3.csv'', ''hogt_2019.csv'', ''notes.csv''])
   \<and> module_to_union (pass1 ex_env ex_paths)
       = module_to_union (pass1 ex_env [''HOGT_2024_trim3.csv'', ''hogt_2019.csv'', ''notes.csv''])"
proof -
  have mem: "ex_fiA \<in> set (info (pass1 ex_env ex_paths))" by (simp add: ex_info)
  have det: "detect_module_from_filename (basename ''vivt_empty.csv'') \<noteq> None"
    by (simp add: ex_names)
  from header_sniffer_contract[of ex_fiA ex_env ex_paths "''vivt_empty.csv''" "[]"
          "[''HOGT_2024_trim3.csv'', ''hogt_2019.csv'', ''notes.csv'']" "[]", unfolded ex_paths_split(1)]
    mem det ex_empty ex_paths_split(2)
  show ?thesis by (simp add: ex_names)
qed




lemma ex_catalog_frame: "read_catalog_frame ex_env CATALOGO_PATH = Inr ex_catalog"
  by (simp add: read_catalog_frame_def CATALOGO_PATH_def ex_env_def ex_files_def ex_decoded_def
        ex_text_of_def ex_parse_def ex_tables_def sniff_delimiter_def ex_catalog_def)

text \<open>A catalog without the column \<open>NOM_MUN\<close>.\<close>

theorem catalog_schema_mismatch_aborts_witness:
  "read_catalog ex_env CATALOGO_PATH = Inl ValueError
   \<and> label_main ex_env (\<lambda>p ent_df muni_df. Inr p) = ([], [], Some ValueError)"
  using catalog_schema_mismatch_aborts[OF ex_catalog_frame, of "''NOM_MUN''" "\<lambda>p ent_df muni_df. Inr p"]
  by (simp add: expected_cols_def ex_catalog_def)

end
